theory Spec2Isabelle
  imports Main
begin

section \<open>The primitive retry loop\<close>

text \<open>
  The channel and datastore resources wrap their create and update calls in the same
  loop (written out four times in the source, differing only in the remote call):
  \<^verbatim>\<open>
  retrySecondsList := [6]int{1, 2, 5, 8, 10, 0}
  var err error
  for _, sleepSeconds := range retrySecondsList {
      err = nil
      _, err = conn.CreateChannel(params)
      if err == nil {
          break
      }
      time.Sleep(time.Duration(sleepSeconds) * time.Second)
  }
  \<close>
  The remote call is a fallible operation on the remote state \<open>'w\<close>: it returns
  \<open>None\<close> for a nil error or \<open>Some e\<close> for the error \<open>e\<close>, together with the remote
  state it leaves behind. Everything observable that the code does is appended to a
  trace: a remote call (labelled by \<open>'c\<close>), a sleep of so many seconds, a call of
  \<open>d.SetId\<close>. The schedule holds whole seconds, and the largest duration computed from
  it, 10 seconds in nanoseconds, is far inside the range of \<open>time.Duration\<close>: the
  seconds are natural numbers here. A sleep of 0 seconds returns at once.
\<close>

type_synonym ('w, 'e) operation = "'w \<Rightarrow> 'e option \<times> 'w"

datatype 'c event = Call 'c | Sleep nat | SetId string

definition retrySecondsList :: "nat list" where
  "retrySecondsList = [1, 2, 5, 8, 10, 0]"

text \<open>
  The loop over a schedule. The argument \<open>err\<close> is the current value of the variable
  \<open>err\<close>, which is what is left when the range is exhausted.
\<close>

fun retryLoop :: "('w, 'e) operation \<Rightarrow> 'c \<Rightarrow> nat list \<Rightarrow> 'e option \<Rightarrow> 'w \<times> 'c event list
    \<Rightarrow> 'e option \<times> 'w \<times> 'c event list" where
  "retryLoop op c [] err (w, tr) = (err, w, tr)"
| "retryLoop op c (sleepSeconds # rest) err (w, tr) =
     (case op w of
        (None, w') \<Rightarrow> (None, w', tr @ [Call c])
      | (Some e, w') \<Rightarrow> retryLoop op c rest (Some e) (w', tr @ [Call c, Sleep sleepSeconds]))"

definition retry :: "('w, 'e) operation \<Rightarrow> 'c \<Rightarrow> 'w \<Rightarrow> 'e option \<times> 'w \<times> 'c event list" where
  "retry op c w = retryLoop op c retrySecondsList None (w, [])"

subsection \<open>Reading a trace\<close>

fun is_Call :: "'c event \<Rightarrow> bool" where
  "is_Call (Call c) = True"
| "is_Call (Sleep n) = False"
| "is_Call (SetId s) = False"

definition invocations :: "'c event list \<Rightarrow> nat" where
  "invocations tr = length (filter is_Call tr)"

fun sleeps :: "'c event list \<Rightarrow> nat list" where
  "sleeps [] = []"
| "sleeps (Sleep n # tr) = n # sleeps tr"
| "sleeps (Call c # tr) = sleeps tr"
| "sleeps (SetId s # tr) = sleeps tr"

definition total_sleep :: "'c event list \<Rightarrow> nat" where
  "total_sleep tr = sum_list (sleeps tr)"

text \<open>
  \<open>segments tr 0\<close> cuts the trace at its remote calls and gives the seconds slept in each
  stretch: before the first call, between each call and the next, and after the last.
\<close>

fun segments :: "'c event list \<Rightarrow> nat \<Rightarrow> nat list" where
  "segments [] acc = [acc]"
| "segments (Call c # tr) acc = acc # segments tr 0"
| "segments (Sleep n # tr) acc = segments tr (acc + n)"
| "segments (SetId s # tr) acc = segments tr acc"

definition delay_before_first :: "'c event list \<Rightarrow> nat" where
  "delay_before_first tr = hd (segments tr 0)"

definition delays_between :: "'c event list \<Rightarrow> nat list" where
  "delays_between tr = butlast (tl (segments tr 0))"

definition delay_after_last :: "'c event list \<Rightarrow> nat" where
  "delay_after_last tr = last (segments tr 0)"

subsection \<open>What an operation does when invoked repeatedly\<close>

text \<open>
  \<open>results op w n\<close> are the results of \<open>n\<close> successive invocations of the operation,
  the first on the remote state \<open>w\<close>, each later one on the state the one before left.
\<close>

fun results :: "('w, 'e) operation \<Rightarrow> 'w \<Rightarrow> nat \<Rightarrow> 'e option list" where
  "results op w 0 = []"
| "results op w (Suc n) = (case op w of (r, w') \<Rightarrow> r # results op w' n)"

text \<open>
  \<open>world_after op w n\<close> is the remote state that \<open>n\<close> successive invocations leave.
\<close>

fun world_after :: "('w, 'e) operation \<Rightarrow> 'w \<Rightarrow> nat \<Rightarrow> 'w" where
  "world_after op w 0 = w"
| "world_after op w (Suc n) = world_after op (snd (op w)) n"

definition succeeded :: "'e option \<Rightarrow> bool" where
  "succeeded r = (r = None)"

text \<open>The trace of a loop that saw \<open>k\<close> failures on a schedule.\<close>

definition shape :: "'c \<Rightarrow> nat \<Rightarrow> nat list \<Rightarrow> 'c event list" where
  "shape c k sched =
     concat (map (\<lambda>s. [Call c, Sleep s]) (take k sched)) @ (if k < length sched then [Call c] else [])"

definition leading_failures :: "'e option list \<Rightarrow> nat" where
  "leading_failures rs = length (takeWhile (\<lambda>r. \<not> succeeded r) rs)"

text \<open>
  The attempts that a loop over six invocations makes are the successive invocations up
  to and including the first one that succeeds (all six when none does);
  \<open>remote_after_retry\<close> is the remote state that these attempts leave.
\<close>

definition attempts_made :: "'e option list \<Rightarrow> 'e option list" where
  "attempts_made rs = take (Suc (leading_failures rs)) rs"

definition remote_after_retry :: "('w, 'e) operation \<Rightarrow> 'w \<Rightarrow> 'w" where
  "remote_after_retry op w = world_after op w (length (attempts_made (results op w 6)))"

section \<open>Attribute bags and request structures\<close>

text \<open>
  The host hands every resource its configuration as dynamically typed values
  (\<open>interface{}\<close>): strings, ints, bools, lists, sets and maps from strings to such
  values. A \<open>*schema.Set\<close> is represented by the list that its \<open>List()\<close> returns. The
  values that the read functions store with \<open>d.Set\<close> also include pointers to strings
  and \<open>int64\<close>s. A Go \<open>int\<close> and an \<open>int64\<close> hold the same numbers on the 64-bit
  platforms the provider is built for, and the code compares and copies them without
  arithmetic, so they are integers here.
\<close>

datatype attr =
    AString string
  | AStringPtr "string option"
  | AInt int
  | AInt64 int
  | ABool bool
  | AList "attr list"
  | ASet "attr list"
  | AMap "string \<Rightarrow> attr option"

text \<open>
  A value of type \<open>map[string]interface{}\<close> is nil (\<open>None\<close>) or a map. Indexing a
  nil map finds nothing, as indexing an empty one.
\<close>

type_synonym rawmap = "(string \<Rightarrow> attr option) option"

fun entries :: "rawmap \<Rightarrow> string \<Rightarrow> attr option" where
  "entries None = Map.empty"
| "entries (Some m) = m"

text \<open>
  A type assertion \<open>v.(T)\<close> on a value of another type, or on the nil interface that a
  missing key yields, is a run-time panic, as is a nil pointer dereference.
\<close>

datatype 'a run = Panic | Ret 'a

fun and_then :: "'a run \<Rightarrow> ('a \<Rightarrow> 'b run) \<Rightarrow> 'b run" where
  "and_then Panic f = Panic"
| "and_then (Ret x) f = f x"

fun asString :: "attr option \<Rightarrow> string run" where
  "asString (Some (AString s)) = Ret s"
| "asString v = Panic"

fun asInt :: "attr option \<Rightarrow> int run" where
  "asInt (Some (AInt n)) = Ret n"
| "asInt v = Panic"

fun asBool :: "attr option \<Rightarrow> bool run" where
  "asBool (Some (ABool b)) = Ret b"
| "asBool v = Panic"

fun asSet :: "attr option \<Rightarrow> attr list run" where
  "asSet (Some (ASet xs)) = Ret xs"
| "asSet v = Panic"

fun asList :: "attr option \<Rightarrow> attr list run" where
  "asList (Some (AList xs)) = Ret xs"
| "asList v = Panic"

fun asMap :: "attr option \<Rightarrow> (string \<Rightarrow> attr option) run" where
  "asMap (Some (AMap m)) = Ret m"
| "asMap v = Panic"

text \<open>
  The pattern \<open>if v, ok := raw[key]; ok { params.X = aws.String(v.(string)) }\<close>: the
  pointer to set, nil when the key is missing.
\<close>

definition optString :: "(string \<Rightarrow> attr option) \<Rightarrow> string \<Rightarrow> string option run" where
  "optString raw key =
     (case raw key of
        None \<Rightarrow> Ret None
      | Some v \<Rightarrow> and_then (asString (Some v)) (\<lambda>s. Ret (Some s)))"

text \<open>
  The SDK's \<open>aws.StringValue\<close>, which is not part of this repository, by its
  documentation: the string pointed to, or the empty string for a nil pointer.
  (\<open>aws.String\<close>, \<open>aws.Int64\<close> and \<open>aws.Bool\<close> return a pointer to their argument:
  \<open>Some\<close>.)
\<close>

definition StringValue :: "string option \<Rightarrow> string" where
  "StringValue p = (case p of None \<Rightarrow> [] | Some s \<Rightarrow> s)"

definition Int64Value :: "int option \<Rightarrow> int" where
  "Int64Value p = (case p of None \<Rightarrow> 0 | Some n \<Rightarrow> n)"

definition BoolValue :: "bool option \<Rightarrow> bool" where
  "BoolValue p = (case p of None \<Rightarrow> False | Some b \<Rightarrow> b)"

subsection \<open>Storage and retention period of a channel or datastore\<close>

text \<open>
  The channel file and the datastore file hold the same functions word for word, on
  the SDK's structures \<open>CustomerManagedChannelS3Storage\<close> and
  \<open>CustomerManagedDatastoreS3Storage\<close> (and so on), which have the same fields. One
  record stands for both. Every field is a pointer.
\<close>

record CustomerManagedS3Storage =
  Bucket :: "string option"
  KeyPrefix :: "string option"
  RoleArn :: "string option"

record ServiceManagedS3Storage =
  sm_unused :: unit

record Storage =
  CustomerManagedS3 :: "CustomerManagedS3Storage option"
  ServiceManagedS3 :: "ServiceManagedS3Storage option"

record RetentionPeriod =
  NumberOfDays :: "int option"
  Unlimited :: "bool option"

definition parseCustomerManagedS3 :: "(string \<Rightarrow> attr option) \<Rightarrow> CustomerManagedS3Storage run" where
  "parseCustomerManagedS3 rawCustomerManagedS3 =
     and_then (asString (rawCustomerManagedS3 ''bucket'')) (\<lambda>bucket.
     and_then (asString (rawCustomerManagedS3 ''role_arn'')) (\<lambda>roleArn.
       let customerManagedS3 = \<lparr>Bucket = Some bucket, KeyPrefix = None, RoleArn = Some roleArn\<rparr>
       in case rawCustomerManagedS3 ''key_prefix'' of
            None \<Rightarrow> Ret customerManagedS3
          | Some v \<Rightarrow>
              and_then (asString (Some v)) (\<lambda>k.
                if length k \<ge> 1 then Ret (customerManagedS3\<lparr>KeyPrefix := Some k\<rparr>)
                else Ret customerManagedS3)))"

definition parseServiceManagedS3 :: "(string \<Rightarrow> attr option) \<Rightarrow> ServiceManagedS3Storage" where
  "parseServiceManagedS3 rawServiceManagedS3 = \<lparr>sm_unused = ()\<rparr>"

definition parseStorage :: "(string \<Rightarrow> attr option) \<Rightarrow> Storage run" where
  "parseStorage rawStorage =
     and_then (asList (rawStorage ''customer_managed_s3'')) (\<lambda>list.
     and_then
       (case list of
          [] \<Rightarrow> Ret None
        | x # _ \<Rightarrow>
            and_then (asMap (Some x)) (\<lambda>rawCustomerManagedS3.
            and_then (parseCustomerManagedS3 rawCustomerManagedS3) (\<lambda>c. Ret (Some c))))
       (\<lambda>customerManagedS3.
     and_then (asList (rawStorage ''service_managed_s3'')) (\<lambda>list.
     and_then
       (case list of
          [] \<Rightarrow> Ret None
        | x # _ \<Rightarrow>
            and_then (asMap (Some x)) (\<lambda>rawServiceManagedS3.
              Ret (Some (parseServiceManagedS3 rawServiceManagedS3))))
       (\<lambda>serviceManagedS3.
     Ret \<lparr>CustomerManagedS3 = customerManagedS3, ServiceManagedS3 = serviceManagedS3\<rparr>))))"

definition parseRetentionPeriod :: "(string \<Rightarrow> attr option) \<Rightarrow> RetentionPeriod run" where
  "parseRetentionPeriod rawRetentionPeriod =
     and_then
       (case rawRetentionPeriod ''number_of_days'' of
          None \<Rightarrow> Ret None
        | Some v \<Rightarrow> and_then (asInt (Some v)) (\<lambda>n. if n > 1 then Ret (Some n) else Ret None))
       (\<lambda>numberOfDays.
     and_then
       (case rawRetentionPeriod ''unlimited'' of
          None \<Rightarrow> Ret None
        | Some v \<Rightarrow> and_then (asBool (Some v)) (\<lambda>b. Ret (Some b)))
       (\<lambda>unlimited.
     Ret \<lparr>NumberOfDays = numberOfDays, Unlimited = unlimited\<rparr>))"

text \<open>
  Modelled from the spec: the validator \<open>validation.IntAtLeast\<close> of the schema library,
  which the schema of \<open>number_of_days\<close> names and the repository does not contain. It
  accepts an int that is at least the bound and nothing else.
\<close>

fun IntAtLeast :: "int \<Rightarrow> attr \<Rightarrow> bool" where
  "IntAtLeast m (AInt n) = (m \<le> n)"
| "IntAtLeast m v = False"

definition flattenCustomerManagedS3 :: "CustomerManagedS3Storage option \<Rightarrow> rawmap" where
  "flattenCustomerManagedS3 customerManagedS3 =
     (case customerManagedS3 of
        None \<Rightarrow> None
      | Some c \<Rightarrow>
          (let raw1 = Map.empty(''bucket'' \<mapsto> AString (StringValue (Bucket c)));
               raw2 = raw1(''role_arn'' \<mapsto> AString (StringValue (RoleArn c)))
           in if KeyPrefix c \<noteq> None
              then Some (raw2(''key_prefix'' \<mapsto> AString (StringValue (KeyPrefix c))))
              else Some raw2))"

definition flattenServiceManagedS3 :: "ServiceManagedS3Storage option \<Rightarrow> rawmap" where
  "flattenServiceManagedS3 serviceManagedS3 =
     (case serviceManagedS3 of None \<Rightarrow> None | Some _ \<Rightarrow> Some Map.empty)"

definition wrapMapInList :: "rawmap \<Rightarrow> attr list" where
  "wrapMapInList mapping = (case mapping of None \<Rightarrow> [] | Some m \<Rightarrow> [AMap m])"

text \<open>
  \<open>flattenStorage\<close> and \<open>flattenRetentionPeriod\<close> read the fields of their argument
  without testing it: a nil argument is a nil pointer dereference.
\<close>

definition flattenStorage :: "Storage option \<Rightarrow> rawmap run" where
  "flattenStorage storage =
     (case storage of
        None \<Rightarrow> Panic
      | Some st \<Rightarrow>
          (let customerManagedS3 = flattenCustomerManagedS3 (CustomerManagedS3 st);
               serviceManagedS3 = flattenServiceManagedS3 (ServiceManagedS3 st)
           in if customerManagedS3 = None \<and> serviceManagedS3 = None then Ret None
              else Ret (Some (Map.empty
                (''customer_managed_s3'' \<mapsto> AList (wrapMapInList customerManagedS3),
                 ''service_managed_s3'' \<mapsto> AList (wrapMapInList serviceManagedS3))))))"

definition flattenRetentionPeriod :: "RetentionPeriod option \<Rightarrow> rawmap run" where
  "flattenRetentionPeriod retentionPeriod =
     (case retentionPeriod of
        None \<Rightarrow> Panic
      | Some rp \<Rightarrow>
          (let raw1 = (if NumberOfDays rp \<noteq> None
                       then Map.empty(''number_of_days'' \<mapsto> AInt64 (Int64Value (NumberOfDays rp)))
                       else Map.empty);
               raw2 = (if Unlimited rp \<noteq> None
                       then raw1(''unlimited'' \<mapsto> ABool (BoolValue (Unlimited rp)))
                       else raw1)
           in Ret (Some raw2)))"

section \<open>Resources\<close>

subsection \<open>Resource data, environment, remote calls\<close>

text \<open>
  \<open>schema.ResourceData\<close> belongs to the host: here it is the resource's id and its
  attributes. \<open>d.Get\<close> looks an attribute up, \<open>d.Set\<close> stores the value it is given (the
  host's conversion of that value to the schema's type is not modelled; the source
  ignores the error \<open>d.Set\<close> may return), \<open>d.SetId\<close> replaces the id.
\<close>

record ResourceData =
  rd_id :: string
  rd_attrs :: "string \<Rightarrow> attr option"

definition Get :: "ResourceData \<Rightarrow> string \<Rightarrow> attr option" where
  "Get d key = rd_attrs d key"

definition Set_attr :: "ResourceData \<Rightarrow> string \<Rightarrow> attr \<Rightarrow> ResourceData" where
  "Set_attr d key v = d\<lparr>rd_attrs := (rd_attrs d)(key \<mapsto> v)\<rparr>"

definition SetId_rd :: "ResourceData \<Rightarrow> string \<Rightarrow> ResourceData" where
  "SetId_rd d i = d\<lparr>rd_id := i\<rparr>"

text \<open>
  The process environment. \<open>os.Getenv\<close> returns the value of a variable, which is
  empty when the variable is not present.
\<close>

type_synonym environment = "string \<Rightarrow> string option"

definition Getenv :: "environment \<Rightarrow> string \<Rightarrow> string" where
  "Getenv env key = (case env key of None \<Rightarrow> [] | Some v \<Rightarrow> v)"

text \<open>The requests of the remote calls made by the functions modelled below.\<close>

record CreateGroupVersionInput =
  gv_GroupId :: "string option"
  gv_AmznClientToken :: "string option"
  gv_ConnectorDefinitionVersionArn :: "string option"
  gv_CoreDefinitionVersionArn :: "string option"
  gv_DeviceDefinitionVersionArn :: "string option"
  gv_FunctionDefinitionVersionArn :: "string option"
  gv_LoggerDefinitionVersionArn :: "string option"
  gv_ResourceDefinitionVersionArn :: "string option"
  gv_SubscriptionDefinitionVersionArn :: "string option"

record Logger =
  lg_Component :: "string option"
  lg_Id :: "string option"
  lg_Level :: "string option"
  lg_Type :: "string option"
  lg_Space :: "int option"

record CreateLoggerDefinitionVersionInput =
  ldv_LoggerDefinitionId :: "string option"
  ldv_AmznClientToken :: "string option"
  ldv_Loggers :: "Logger list"

record CreateChannelInput =
  cc_ChannelName :: "string option"
  cc_ChannelStorage :: "Storage option"
  cc_RetentionPeriod :: "RetentionPeriod option"

record DescribeChannelInput =
  dc_ChannelName :: "string option"

record Channel =
  ch_Name :: "string option"
  ch_Storage :: "Storage option"
  ch_RetentionPeriod :: "RetentionPeriod option"

record DescribeChannelOutput =
  dco_Channel :: "Channel option"

record CreateDatastoreInput =
  cd_DatastoreName :: "string option"
  cd_DatastoreStorage :: "Storage option"
  cd_RetentionPeriod :: "RetentionPeriod option"

record DescribeDatastoreInput =
  dd_DatastoreName :: "string option"

record Datastore =
  ds_Name :: "string option"
  ds_Storage :: "Storage option"
  ds_RetentionPeriod :: "RetentionPeriod option"

record DescribeDatastoreOutput =
  ddo_Datastore :: "Datastore option"

datatype api_call =
    CreateGroupVersionCall CreateGroupVersionInput
  | CreateLoggerDefinitionVersionCall CreateLoggerDefinitionVersionInput
  | CreateChannelCall CreateChannelInput
  | DescribeChannelCall DescribeChannelInput
  | CreateDatastoreCall CreateDatastoreInput
  | DescribeDatastoreCall DescribeDatastoreInput

text \<open>
  The connections: what each remote call does to the remote state \<open>'w\<close> and what it
  returns. A call that returns an output and an error returns the one or the other.
\<close>

record ('w, 'e) greengrassconn =
  CreateGroupVersion :: "CreateGroupVersionInput \<Rightarrow> ('w, 'e) operation"
  CreateLoggerDefinitionVersion :: "CreateLoggerDefinitionVersionInput \<Rightarrow> ('w, 'e) operation"

record ('w, 'e) iotanalyticsconn =
  CreateChannel :: "CreateChannelInput \<Rightarrow> ('w, 'e) operation"
  DescribeChannel :: "DescribeChannelInput \<Rightarrow> 'w \<Rightarrow> ('e + DescribeChannelOutput) \<times> 'w"
  CreateDatastore :: "CreateDatastoreInput \<Rightarrow> ('w, 'e) operation"
  DescribeDatastore :: "DescribeDatastoreInput \<Rightarrow> 'w \<Rightarrow> ('e + DescribeDatastoreOutput) \<times> 'w"

text \<open>
  What a resource function works on: the resource data \<open>d\<close>, the remote state behind
  the connection, and the trace of what has been done. A resource function returns its
  error (nil is \<open>None\<close>) unless it panics, and the state it leaves.
\<close>

record 'w machine =
  rd :: ResourceData
  remote :: 'w
  trace :: "api_call event list"

subsection \<open>Greengrass: creating a version\<close>

definition clientToken :: "environment \<Rightarrow> string option" where
  "clientToken env = (let v = Getenv env ''AMZN_CLIENT_TOKEN'' in if v \<noteq> [] then Some v else None)"

definition createGroupVersion ::
    "environment \<Rightarrow> ('w, 'e) greengrassconn \<Rightarrow> 'w machine \<Rightarrow> 'e option run \<times> 'w machine" where
  "createGroupVersion env conn s =
     (case asSet (Get (rd s) ''group_version'') of
        Panic \<Rightarrow> (Panic, s)
      | Ret v \<Rightarrow>
          (case v of
             [] \<Rightarrow> (Ret None, s)
           | x # _ \<Rightarrow>
               (case
                  and_then (asMap (Some x)) (\<lambda>raw.
                  and_then (optString raw ''connector_definition_version_arn'') (\<lambda>connector.
                  and_then (optString raw ''core_definition_version_arn'') (\<lambda>core.
                  and_then (optString raw ''device_definition_version_arn'') (\<lambda>device.
                  and_then (optString raw ''function_definition_version_arn'') (\<lambda>function.
                  and_then (optString raw ''logger_definition_version_arn'') (\<lambda>logger.
                  and_then (optString raw ''resource_definition_version_arn'') (\<lambda>resource.
                  and_then (optString raw ''subscription_definition_version_arn'') (\<lambda>subscription.
                    Ret \<lparr>gv_GroupId = Some (rd_id (rd s)),
                         gv_AmznClientToken = clientToken env,
                         gv_ConnectorDefinitionVersionArn = connector,
                         gv_CoreDefinitionVersionArn = core,
                         gv_DeviceDefinitionVersionArn = device,
                         gv_FunctionDefinitionVersionArn = function,
                         gv_LoggerDefinitionVersionArn = logger,
                         gv_ResourceDefinitionVersionArn = resource,
                         gv_SubscriptionDefinitionVersionArn = subscription\<rparr>))))))))
                of
                  Panic \<Rightarrow> (Panic, s)
                | Ret params \<Rightarrow>
                    (case CreateGroupVersion conn params (remote s) of
                       (err, w') \<Rightarrow>
                         (Ret err,
                          s\<lparr>remote := w',
                            trace := trace s @ [Call (CreateGroupVersionCall params)]\<rparr>)))))"

definition parseLogger :: "attr \<Rightarrow> Logger run" where
  "parseLogger loggerToCast =
     and_then (asMap (Some loggerToCast)) (\<lambda>rawLogger.
     and_then (asString (rawLogger ''component'')) (\<lambda>component.
     and_then (asString (rawLogger ''id'')) (\<lambda>ident.
     and_then (asString (rawLogger ''level'')) (\<lambda>level.
     and_then (asString (rawLogger ''type'')) (\<lambda>type.
     and_then
       (case rawLogger ''space'' of
          None \<Rightarrow> Ret None
        | Some space \<Rightarrow> and_then (asInt (Some space)) (\<lambda>n. Ret (Some n)))
       (\<lambda>space.
     Ret \<lparr>lg_Component = Some component, lg_Id = Some ident, lg_Level = Some level,
          lg_Type = Some type, lg_Space = space\<rparr>))))))"

fun parseLoggers :: "attr list \<Rightarrow> Logger list run" where
  "parseLoggers [] = Ret []"
| "parseLoggers (loggerToCast # rest) =
     and_then (parseLogger loggerToCast) (\<lambda>logger.
     and_then (parseLoggers rest) (\<lambda>loggers. Ret (logger # loggers)))"

definition createLoggerDefinitionVersion ::
    "environment \<Rightarrow> ('w, 'e) greengrassconn \<Rightarrow> 'w machine \<Rightarrow> 'e option run \<times> 'w machine" where
  "createLoggerDefinitionVersion env conn s =
     (case asSet (Get (rd s) ''logger_definition_version'') of
        Panic \<Rightarrow> (Panic, s)
      | Ret v \<Rightarrow>
          (case v of
             [] \<Rightarrow> (Ret None, s)
           | x # _ \<Rightarrow>
               (case
                  and_then (asMap (Some x)) (\<lambda>rawData.
                  and_then (asSet (rawData ''logger'')) (\<lambda>list.
                  and_then (parseLoggers list) (\<lambda>loggers.
                    Ret \<lparr>ldv_LoggerDefinitionId = Some (rd_id (rd s)),
                         ldv_AmznClientToken = clientToken env,
                         ldv_Loggers = loggers\<rparr>)))
                of
                  Panic \<Rightarrow> (Panic, s)
                | Ret params \<Rightarrow>
                    (case CreateLoggerDefinitionVersion conn params (remote s) of
                       (err, w') \<Rightarrow>
                         (Ret err,
                          s\<lparr>remote := w',
                            trace := trace s @ [Call (CreateLoggerDefinitionVersionCall params)]\<rparr>)))))"

text \<open>The requests for a new version that a trace holds.\<close>

fun group_version_requests :: "api_call event list \<Rightarrow> CreateGroupVersionInput list" where
  "group_version_requests [] = []"
| "group_version_requests (Call (CreateGroupVersionCall p) # tr) = p # group_version_requests tr"
| "group_version_requests (e # tr) = group_version_requests tr"

fun logger_version_requests :: "api_call event list \<Rightarrow> CreateLoggerDefinitionVersionInput list" where
  "logger_version_requests [] = []"
| "logger_version_requests (Call (CreateLoggerDefinitionVersionCall p) # tr) =
     p # logger_version_requests tr"
| "logger_version_requests (e # tr) = logger_version_requests tr"

subsection \<open>IoT Analytics: creating a channel or a datastore\<close>

text \<open>
  The first lines of \<open>resourceAwsIotAnalyticsChannelCreate\<close>, which build the request
  from the configuration:
  \<^verbatim>\<open>
  params := &iotanalytics.CreateChannelInput{
      ChannelName: aws.String(d.Get("name").(string)),
  }
  channelStorageSet := d.Get("storage").(*schema.Set).List()
  if len(channelStorageSet) >= 1 {
      rawChannelStorage := channelStorageSet[0].(map[string]interface{})
      params.ChannelStorage = parseStorage(rawChannelStorage)
  }
  retentionPeriodSet := d.Get("retention_period").(*schema.Set).List()
  if len(retentionPeriodSet) >= 1 {
      rawRetentionPeriod := retentionPeriodSet[0].(map[string]interface{})
      params.RetentionPeriod = parseRetentionPeriod(rawRetentionPeriod)
  }
  \<close>
\<close>

definition configuredStorage :: "ResourceData \<Rightarrow> Storage option run" where
  "configuredStorage d =
     and_then (asSet (Get d ''storage'')) (\<lambda>storageSet.
       case storageSet of
         [] \<Rightarrow> Ret None
       | x # _ \<Rightarrow>
           and_then (asMap (Some x)) (\<lambda>rawStorage.
           and_then (parseStorage rawStorage) (\<lambda>st. Ret (Some st))))"

definition configuredRetentionPeriod :: "ResourceData \<Rightarrow> RetentionPeriod option run" where
  "configuredRetentionPeriod d =
     and_then (asSet (Get d ''retention_period'')) (\<lambda>retentionPeriodSet.
       case retentionPeriodSet of
         [] \<Rightarrow> Ret None
       | x # _ \<Rightarrow>
           and_then (asMap (Some x)) (\<lambda>rawRetentionPeriod.
           and_then (parseRetentionPeriod rawRetentionPeriod) (\<lambda>rp. Ret (Some rp))))"

definition createChannelParams :: "ResourceData \<Rightarrow> CreateChannelInput run" where
  "createChannelParams d =
     and_then (asString (Get d ''name'')) (\<lambda>name.
     and_then (configuredStorage d) (\<lambda>storage.
     and_then (configuredRetentionPeriod d) (\<lambda>retentionPeriod.
       Ret \<lparr>cc_ChannelName = Some name, cc_ChannelStorage = storage,
            cc_RetentionPeriod = retentionPeriod\<rparr>)))"

definition createDatastoreParams :: "ResourceData \<Rightarrow> CreateDatastoreInput run" where
  "createDatastoreParams d =
     and_then (asString (Get d ''name'')) (\<lambda>name.
     and_then (configuredStorage d) (\<lambda>storage.
     and_then (configuredRetentionPeriod d) (\<lambda>retentionPeriod.
       Ret \<lparr>cd_DatastoreName = Some name, cd_DatastoreStorage = storage,
            cd_RetentionPeriod = retentionPeriod\<rparr>)))"

text \<open>
  The three \<open>d.Set\<close> of a read, from the name, storage and retention period that the
  remote call returned.
\<close>

definition setReadAttributes ::
    "ResourceData \<Rightarrow> string option \<Rightarrow> Storage option \<Rightarrow> RetentionPeriod option \<Rightarrow> ResourceData run \<times> ResourceData" where
  "setReadAttributes d name storage retentionPeriod =
     (let d1 = Set_attr d ''name'' (AStringPtr name) in
      case flattenStorage storage of
        Panic \<Rightarrow> (Panic, d1)
      | Ret rawStorage \<Rightarrow>
          (let d2 = Set_attr d1 ''storage'' (AList (wrapMapInList rawStorage)) in
           case flattenRetentionPeriod retentionPeriod of
             Panic \<Rightarrow> (Panic, d2)
           | Ret rawRetentionPeriod \<Rightarrow>
               (let d3 = Set_attr d2 ''retention_period'' (AList (wrapMapInList rawRetentionPeriod))
                in (Ret d3, d3))))"

definition resourceAwsIotAnalyticsChannelRead ::
    "('w, 'e) iotanalyticsconn \<Rightarrow> 'w machine \<Rightarrow> 'e option run \<times> 'w machine" where
  "resourceAwsIotAnalyticsChannelRead conn s =
     (let params = \<lparr>dc_ChannelName = Some (rd_id (rd s))\<rparr> in
      case DescribeChannel conn params (remote s) of
        (res, w') \<Rightarrow>
          (let s1 = s\<lparr>remote := w', trace := trace s @ [Call (DescribeChannelCall params)]\<rparr> in
           case res of
             Inl err \<Rightarrow> (Ret (Some err), s1)
           | Inr out \<Rightarrow>
               (case dco_Channel out of
                  None \<Rightarrow> (Panic, s1)
                | Some ch \<Rightarrow>
                    (case setReadAttributes (rd s1) (ch_Name ch) (ch_Storage ch) (ch_RetentionPeriod ch) of
                       (Panic, d') \<Rightarrow> (Panic, s1\<lparr>rd := d'\<rparr>)
                     | (Ret _, d') \<Rightarrow> (Ret None, s1\<lparr>rd := d'\<rparr>)))))"

definition resourceAwsIotAnalyticsDatastoreRead ::
    "('w, 'e) iotanalyticsconn \<Rightarrow> 'w machine \<Rightarrow> 'e option run \<times> 'w machine" where
  "resourceAwsIotAnalyticsDatastoreRead conn s =
     (let params = \<lparr>dd_DatastoreName = Some (rd_id (rd s))\<rparr> in
      case DescribeDatastore conn params (remote s) of
        (res, w') \<Rightarrow>
          (let s1 = s\<lparr>remote := w', trace := trace s @ [Call (DescribeDatastoreCall params)]\<rparr> in
           case res of
             Inl err \<Rightarrow> (Ret (Some err), s1)
           | Inr out \<Rightarrow>
               (case ddo_Datastore out of
                  None \<Rightarrow> (Panic, s1)
                | Some ds \<Rightarrow>
                    (case setReadAttributes (rd s1) (ds_Name ds) (ds_Storage ds) (ds_RetentionPeriod ds) of
                       (Panic, d') \<Rightarrow> (Panic, s1\<lparr>rd := d'\<rparr>)
                     | (Ret _, d') \<Rightarrow> (Ret None, s1\<lparr>rd := d'\<rparr>)))))"

text \<open>
  Create: build the request, run the retry loop on the remote call, return its error
  if it left one, otherwise set the id to the configured name and read.
\<close>

definition resourceAwsIotAnalyticsChannelCreate ::
    "('w, 'e) iotanalyticsconn \<Rightarrow> 'w machine \<Rightarrow> 'e option run \<times> 'w machine" where
  "resourceAwsIotAnalyticsChannelCreate conn s =
     (case createChannelParams (rd s) of
        Panic \<Rightarrow> (Panic, s)
      | Ret params \<Rightarrow>
          (case retryLoop (CreateChannel conn params) (CreateChannelCall params)
                  retrySecondsList None (remote s, trace s) of
             (Some err, w', tr') \<Rightarrow> (Ret (Some err), s\<lparr>remote := w', trace := tr'\<rparr>)
           | (None, w', tr') \<Rightarrow>
               (case asString (Get (rd s) ''name'') of
                  Panic \<Rightarrow> (Panic, s\<lparr>remote := w', trace := tr'\<rparr>)
                | Ret name \<Rightarrow>
                    resourceAwsIotAnalyticsChannelRead conn
                      (s\<lparr>rd := SetId_rd (rd s) name, remote := w',
                         trace := tr' @ [SetId name]\<rparr>))))"

definition resourceAwsIotAnalyticsDatastoreCreate ::
    "('w, 'e) iotanalyticsconn \<Rightarrow> 'w machine \<Rightarrow> 'e option run \<times> 'w machine" where
  "resourceAwsIotAnalyticsDatastoreCreate conn s =
     (case createDatastoreParams (rd s) of
        Panic \<Rightarrow> (Panic, s)
      | Ret params \<Rightarrow>
          (case retryLoop (CreateDatastore conn params) (CreateDatastoreCall params)
                  retrySecondsList None (remote s, trace s) of
             (Some err, w', tr') \<Rightarrow> (Ret (Some err), s\<lparr>remote := w', trace := tr'\<rparr>)
           | (None, w', tr') \<Rightarrow>
               (case asString (Get (rd s) ''name'') of
                  Panic \<Rightarrow> (Panic, s\<lparr>remote := w', trace := tr'\<rparr>)
                | Ret name \<Rightarrow>
                    resourceAwsIotAnalyticsDatastoreRead conn
                      (s\<lparr>rd := SetId_rd (rd s) name, remote := w',
                         trace := tr' @ [SetId name]\<rparr>))))"

text \<open>The ids that a trace sets, in order.\<close>

fun set_ids :: "'c event list \<Rightarrow> string list" where
  "set_ids [] = []"
| "set_ids (SetId i # tr) = i # set_ids tr"
| "set_ids (Call c # tr) = set_ids tr"
| "set_ids (Sleep n # tr) = set_ids tr"

section \<open>The client token, as specified\<close>

text \<open>
  The specification's words for the idempotency token of a version-creation call: the
  value of the environment variable when it is present and not empty, and no token
  otherwise.
\<close>

definition forwarded_token :: "environment \<Rightarrow> string option" where
  "forwarded_token env =
     (case env ''AMZN_CLIENT_TOKEN'' of
        None \<Rightarrow> None
      | Some v \<Rightarrow> if v = [] then None else Some v)"

section \<open>What a read stores, as specified\<close>

text \<open>
  The resource data after a read that received a name, a flattened storage and a
  flattened retention period from the remote call: the three attributes hold them, and
  nothing else has changed.
\<close>

definition stored :: "ResourceData \<Rightarrow> string option \<Rightarrow> rawmap \<Rightarrow> rawmap \<Rightarrow> ResourceData" where
  "stored d name rawStorage rawRetentionPeriod =
     d\<lparr>rd_attrs := (rd_attrs d)
        (''name'' \<mapsto> AStringPtr name,
         ''storage'' \<mapsto> AList (wrapMapInList rawStorage),
         ''retention_period'' \<mapsto> AList (wrapMapInList rawRetentionPeriod))\<rparr>"

section \<open>Example connections and configurations\<close>

text \<open>
  A Greengrass connection whose calls succeed, and a group whose configuration has a
  version block for the group and one for the logger definition.
\<close>

definition example_greengrass :: "(nat, string) greengrassconn" where
  "example_greengrass =
     \<lparr>CreateGroupVersion = (\<lambda>p w. (None, Suc w)),
      CreateLoggerDefinitionVersion = (\<lambda>p w. (None, Suc w))\<rparr>"

definition example_group :: "nat machine" where
  "example_group =
     \<lparr>rd = \<lparr>rd_id = ''g-1'',
            rd_attrs = Map.empty
              (''group_version'' \<mapsto> ASet [AMap (Map.empty(''core_definition_version_arn'' \<mapsto> AString ''arn:core''))],
               ''logger_definition_version'' \<mapsto> ASet [AMap (Map.empty(''logger'' \<mapsto> ASet []))])\<rparr>,
      remote = 0, trace = []\<rparr>"

text \<open>
  An IoT Analytics connection whose create calls fail twice with the error the source
  comments describe and then succeed, and whose describe calls return a resource and
  move the remote state on by 10; another whose create calls always fail; what the
  describe calls' storage and retention period flatten to; and a configuration with a
  name and a retention period of one day.
\<close>

definition example_iot :: "(nat, string) iotanalyticsconn" where
  "example_iot =
     \<lparr>CreateChannel = (\<lambda>p w. (if w < 2 then Some ''Unable to assume role'' else None, Suc w)),
      DescribeChannel = (\<lambda>p w.
        (Inr \<lparr>dco_Channel = Some \<lparr>ch_Name = dc_ChannelName p,
           ch_Storage = Some \<lparr>CustomerManagedS3 = None, ServiceManagedS3 = Some \<lparr>sm_unused = ()\<rparr>\<rparr>,
           ch_RetentionPeriod = Some \<lparr>NumberOfDays = None, Unlimited = Some True\<rparr>\<rparr>\<rparr>, w + 10)),
      CreateDatastore = (\<lambda>p w. (if w < 2 then Some ''Unable to assume role'' else None, Suc w)),
      DescribeDatastore = (\<lambda>p w.
        (Inr \<lparr>ddo_Datastore = Some \<lparr>ds_Name = dd_DatastoreName p,
           ds_Storage = Some \<lparr>CustomerManagedS3 = None, ServiceManagedS3 = Some \<lparr>sm_unused = ()\<rparr>\<rparr>,
           ds_RetentionPeriod = Some \<lparr>NumberOfDays = None, Unlimited = Some True\<rparr>\<rparr>\<rparr>, w + 10))\<rparr>"

definition example_iot_down :: "(nat, string) iotanalyticsconn" where
  "example_iot_down =
     example_iot\<lparr>CreateChannel := (\<lambda>p w. (Some ''AccessDenied'', Suc w)),
                 CreateDatastore := (\<lambda>p w. (Some ''AccessDenied'', Suc w))\<rparr>"

definition example_read_storage :: rawmap where
  "example_read_storage =
     Some (Map.empty(''customer_managed_s3'' \<mapsto> AList [],
                     ''service_managed_s3'' \<mapsto> AList [AMap Map.empty]))"

definition example_read_retention :: rawmap where
  "example_read_retention = Some (Map.empty(''unlimited'' \<mapsto> ABool True))"

definition example_config :: "nat machine" where
  "example_config =
     \<lparr>rd = \<lparr>rd_id = [],
            rd_attrs = Map.empty
              (''name'' \<mapsto> AString ''telemetry'',
               ''storage'' \<mapsto> ASet [],
               ''retention_period'' \<mapsto> ASet [AMap (Map.empty(''number_of_days'' \<mapsto> AInt 1))])\<rparr>,
      remote = 0, trace = []\<rparr>"

definition example_channel_params :: CreateChannelInput where
  "example_channel_params =
     \<lparr>cc_ChannelName = Some ''telemetry'', cc_ChannelStorage = None,
      cc_RetentionPeriod = Some \<lparr>NumberOfDays = None, Unlimited = None\<rparr>\<rparr>"

definition example_datastore_params :: CreateDatastoreInput where
  "example_datastore_params =
     \<lparr>cd_DatastoreName = Some ''telemetry'', cd_DatastoreStorage = None,
      cd_RetentionPeriod = Some \<lparr>NumberOfDays = None, Unlimited = None\<rparr>\<rparr>"

text \<open>
  A Greengrass resource whose configuration has no version block, and the attributes
  of a retention period of one day.
\<close>

definition example_no_version :: "nat machine" where
  "example_no_version =
     \<lparr>rd = \<lparr>rd_id = ''g-2'',
            rd_attrs = Map.empty
              (''name'' \<mapsto> AString ''plant'',
               ''group_version'' \<mapsto> ASet [],
               ''logger_definition_version'' \<mapsto> ASet [])\<rparr>,
      remote = 0, trace = []\<rparr>"

definition example_one_day :: "string \<Rightarrow> attr option" where
  "example_one_day = Map.empty(''number_of_days'' \<mapsto> AInt 1)"

text \<open>
  Three operations on a counter of invocations: one that fails five times and then
  succeeds, one that fails once and then succeeds for good, and one that succeeds on
  its second invocation only.
\<close>

definition example_fail_five :: "(nat, nat) operation" where
  "example_fail_five n = (if n < 5 then Some n else None, Suc n)"

definition example_create :: "(nat, string) operation" where
  "example_create n = (if n = 0 then Some ''Unable to assume role'' else None, Suc n)"

definition example_update :: "(nat, nat) operation" where
  "example_update n = (if n = 1 then None else Some n, Suc n)"

section \<open>Properties of the retry loop\<close>

lemma results_length [simp]: "length (results op w n) = n"
  by (induction n arbitrary: w) (auto split: prod.splits)

lemma leading_failures_le: "leading_failures rs \<le> length rs"
  by (simp add: leading_failures_def length_takeWhile_le)

lemma retryLoop_trace:
  "snd (snd (retryLoop op c sched err (w, tr))) =
     tr @ shape c (leading_failures (results op w (length sched))) sched"
proof (induction sched arbitrary: w tr err)
  case Nil
  show ?case by (simp add: shape_def leading_failures_def)
next
  case (Cons s sched)
  obtain r w' where ow: "op w = (r, w')" by (cases "op w")
  show ?case
  proof (cases r)
    case None
    with ow show ?thesis by (simp add: shape_def leading_failures_def succeeded_def)
  next
    case (Some e)
    with ow Cons.IH [of "Some e" w' "tr @ [Call c, Sleep s]"] show ?thesis
      by (simp add: shape_def leading_failures_def succeeded_def)
  qed
qed

lemma retryLoop_err:
  "fst (retryLoop op c sched err (w, tr)) =
     (let rs = results op w (length sched) in
      if leading_failures rs < length sched then None
      else if sched = [] then err else last rs)"
proof (induction sched arbitrary: w tr err)
  case Nil
  show ?case by (simp add: leading_failures_def)
next
  case (Cons s sched)
  obtain r w' where ow: "op w = (r, w')" by (cases "op w")
  show ?case
  proof (cases r)
    case None
    with ow show ?thesis by (simp add: leading_failures_def succeeded_def)
  next
    case (Some e)
    with ow Cons.IH [of "Some e" w' "tr @ [Call c, Sleep s]"] show ?thesis
      by (cases sched) (auto simp: leading_failures_def succeeded_def Let_def split: prod.splits)
  qed
qed

lemma leading_failures_map:
  "leading_failures rs = length (takeWhile Not (map succeeded rs))"
  by (simp add: leading_failures_def takeWhile_map comp_def)

lemma le_six_cases:
  "k \<le> (6::nat) \<Longrightarrow> k = 0 \<or> k = 1 \<or> k = 2 \<or> k = 3 \<or> k = 4 \<or> k = 5 \<or> k = 6"
  by arith

lemma retrySecondsList_length: "length retrySecondsList = 6"
  by (simp add: retrySecondsList_def)

lemma retry_trace:
  "snd (snd (retry op c w)) = shape c (leading_failures (results op w 6)) retrySecondsList"
  using retryLoop_trace [of op c retrySecondsList None w "[]"]
  by (simp add: retry_def retrySecondsList_length)

lemma retry_err:
  "fst (retry op c w) =
     (if leading_failures (results op w 6) < 6 then None else last (results op w 6))"
  using retryLoop_err [of op c retrySecondsList None w "[]"] retrySecondsList_length
  by (auto simp: retry_def Let_def)

lemma leading_failures_six: "leading_failures (results op w 6) \<le> 6"
  using leading_failures_le [of "results op w 6"] by simp

lemma shape_facts:
  assumes "k \<le> 6"
  shows "invocations (shape c k retrySecondsList) = min (Suc k) 6"
    and "sleeps (shape c k retrySecondsList) = take k retrySecondsList"
    and "delays_between (shape c k retrySecondsList) = take (min (Suc k) 6 - 1) [1, 2, 5, 8, 10]"
    and "delay_before_first (shape c k retrySecondsList) = 0"
    and "delay_after_last (shape c k retrySecondsList) = 0"
  using le_six_cases [OF assms]
  by (auto simp: shape_def retrySecondsList_def invocations_def delays_between_def
      delay_before_first_def delay_after_last_def)

lemma shape_invocations:
  "k \<le> 6 \<Longrightarrow> invocations (shape c k retrySecondsList) = min (Suc k) 6"
  by (rule shape_facts)

lemma shape_sleeps:
  "k \<le> 6 \<Longrightarrow> sleeps (shape c k retrySecondsList) = take k retrySecondsList"
  by (rule shape_facts)

lemma retry_invocations:
  "invocations (snd (snd (retry op c w))) = min (Suc (leading_failures (results op w 6))) 6"
  by (simp add: retry_trace shape_invocations leading_failures_six)

lemma leading_failures_all:
  "\<forall>r \<in> set rs. r \<noteq> None \<Longrightarrow> leading_failures rs = length rs"
proof -
  assume "\<forall>r \<in> set rs. r \<noteq> None"
  then have "takeWhile (\<lambda>r. \<not> succeeded r) rs = rs"
    by (simp add: takeWhile_eq_all_conv succeeded_def)
  then show ?thesis
    unfolding leading_failures_def by (rule arg_cong)
qed

lemma results_nonempty: "0 < n \<Longrightarrow> results op w n \<noteq> []"
  by (cases n) (auto split: prod.splits)

lemma last_results_six: "last (results op w 6) = results op w 6 ! 5"
proof -
  have "results op w 6 \<noteq> []" by (rule results_nonempty) simp
  then show ?thesis by (simp add: last_conv_nth)
qed

lemma retry_last_result:
  "fst (retry op c w) = results op w 6 ! (invocations (snd (snd (retry op c w))) - 1)"
proof (cases "leading_failures (results op w 6) < 6")
  case True
  then have "leading_failures (results op w 6) < length (results op w 6)" by simp
  then have "\<not> (\<not> succeeded (results op w 6 ! leading_failures (results op w 6)))"
    unfolding leading_failures_def by (rule nth_length_takeWhile)
  then have "results op w 6 ! leading_failures (results op w 6) = None"
    by (simp add: succeeded_def)
  with True show ?thesis
    by (simp add: retry_invocations retry_err min_def)
next
  case False
  with leading_failures_six [of op w] have "leading_failures (results op w 6) = 6" by simp
  then show ?thesis
    by (simp add: retry_invocations retry_err last_results_six)
qed

lemma retryLoop_world:
  "fst (snd (retryLoop op c sched err (w, tr))) =
     world_after op w (min (Suc (leading_failures (results op w (length sched)))) (length sched))"
proof (induction sched arbitrary: w tr err)
  case Nil
  show ?case by simp
next
  case (Cons s sched)
  obtain r w' where ow: "op w = (r, w')" by (cases "op w")
  show ?case
  proof (cases r)
    case None
    with ow show ?thesis by (simp add: leading_failures_def succeeded_def)
  next
    case (Some e)
    with ow Cons.IH [of "Some e" w' "tr @ [Call c, Sleep s]"] show ?thesis
      by (simp add: leading_failures_def succeeded_def)
  qed
qed

lemma retry_world:
  "fst (snd (retry op c w)) = world_after op w (min (Suc (leading_failures (results op w 6))) 6)"
  using retryLoop_world [of op c retrySecondsList None w "[]"]
  by (simp add: retry_def retrySecondsList_length)

lemma leading_failures_attempts_made:
  "leading_failures (attempts_made rs) = leading_failures rs"
  unfolding attempts_made_def leading_failures_def
  by (induction rs) auto

lemma attempts_made_length:
  "length (attempts_made (results op w 6)) = min (Suc (leading_failures (results op w 6))) 6"
  by (simp add: attempts_made_def min_def)

lemma attempts_made_last:
  "last (attempts_made (results op w 6))
     = results op w 6 ! (min (Suc (leading_failures (results op w 6))) 6 - 1)"
proof -
  let ?rs = "results op w 6" and ?k = "leading_failures (results op w 6)"
  have ne: "attempts_made ?rs \<noteq> []"
    using results_nonempty [of 6 op w] by (simp add: attempts_made_def)
  have "last (attempts_made ?rs) = attempts_made ?rs ! (length (attempts_made ?rs) - 1)"
    using ne by (rule last_conv_nth)
  also have "\<dots> = ?rs ! (min (Suc ?k) 6 - 1)"
    unfolding attempts_made_length by (simp add: attempts_made_def min_def)
  finally show ?thesis .
qed

lemma shape_five:
  "shape c 5 retrySecondsList
     = [Call c, Sleep 1, Call c, Sleep 2, Call c, Sleep 5, Call c, Sleep 8, Call c, Sleep 10, Call c]"
  by (simp add: shape_def retrySecondsList_def)

lemma failed_attempts_made:
  "length (filter (\<lambda>r. \<not> succeeded r) (attempts_made rs)) = leading_failures rs"
  unfolding attempts_made_def leading_failures_def
  by (induction rs) auto

subsection \<open>C1: the delay schedule\<close>

text \<open>
  Claim C1. Whatever the operation does, the seconds slept between one attempt and the
  next are 1, 2, 5, 8, 10 in that order (as many of them as there are further attempts),
  nothing is slept before the first attempt, and no time passes after the last attempt:
  the sixth attempt comes after the 10 second wait and nothing more, and the last entry
  of the schedule, 0, is the length of the \<open>time.Sleep\<close> that follows a failed sixth
  attempt. There are between one and six attempts, and the sleeps requested are a prefix
  of the schedule.
\<close>

theorem retry_delay_schedule:
  "delays_between (snd (snd (retry op c w)))
     = take (invocations (snd (snd (retry op c w))) - 1) [1, 2, 5, 8, 10]
   \<and> delay_before_first (snd (snd (retry op c w))) = 0
   \<and> delay_after_last (snd (snd (retry op c w))) = 0
   \<and> 1 \<le> invocations (snd (snd (retry op c w)))
   \<and> invocations (snd (snd (retry op c w))) \<le> 6
   \<and> sleeps (snd (snd (retry op c w)))
       = take (length (sleeps (snd (snd (retry op c w))))) retrySecondsList"
proof -
  have k: "leading_failures (results op w 6) \<le> 6"
    by (rule leading_failures_six)
  show ?thesis
    using k shape_facts [OF k, of c]
    by (simp add: retry_trace retrySecondsList_length min_absorb2)
qed

text \<open>The schedule in full, on an operation that fails six times.\<close>

theorem retry_delay_schedule_witness:
  "delays_between (snd (snd (retry (\<lambda>n::nat. (Some n, Suc n)) () 1))) = [1, 2, 5, 8, 10]
   \<and> delay_after_last (snd (snd (retry (\<lambda>n::nat. (Some n, Suc n)) () 1))) = 0
   \<and> invocations (snd (snd (retry (\<lambda>n::nat. (Some n, Suc n)) () 1))) = 6"
proof -
  have i: "invocations (snd (snd (retry (\<lambda>n::nat. (Some n, Suc n)) () 1))) = 6"
    by code_simp
  show ?thesis
    using i retry_delay_schedule [of "\<lambda>n::nat. (Some n, Suc n)" "()" 1] by simp
qed

subsection \<open>C2: an operation that always fails\<close>

text \<open>
  Claim C2. When all six attempts fail, the operation is invoked exactly six times and
  the loop returns the error of the sixth attempt.
\<close>

theorem retry_all_fail:
  assumes "\<forall>r \<in> set (results op w 6). r \<noteq> None"
  shows "invocations (snd (snd (retry op c w))) = 6
    \<and> fst (retry op c w) = results op w 6 ! 5
    \<and> fst (retry op c w) \<noteq> None"
proof -
  have k: "leading_failures (results op w 6) = 6"
    using leading_failures_all [OF assms] by simp
  have "results op w 6 ! 5 \<in> set (results op w 6)"
    by (rule nth_mem) simp
  with assms have "results op w 6 ! 5 \<noteq> None" by blast
  then show ?thesis
    by (simp add: retry_invocations retry_err k last_results_six)
qed

text \<open>Errors 1 to 6 in turn: the loop returns 6, not 1.\<close>

theorem retry_all_fail_witness:
  "results (\<lambda>n::nat. (Some n, Suc n)) 1 6 = [Some 1, Some 2, Some 3, Some 4, Some 5, Some 6]
   \<and> invocations (snd (snd (retry (\<lambda>n::nat. (Some n, Suc n)) () 1))) = 6
   \<and> fst (retry (\<lambda>n::nat. (Some n, Suc n)) () 1) = Some 6"
proof -
  have h: "\<forall>r \<in> set (results (\<lambda>n::nat. (Some n, Suc n)) 1 6). r \<noteq> None"
    by code_simp
  have e: "results (\<lambda>n::nat. (Some n, Suc n)) 1 6
      = [Some 1, Some 2, Some 3, Some 4, Some 5, Some 6]"
    by code_simp
  show ?thesis
    using e retry_all_fail [OF h, of "()"] by simp
qed

subsection \<open>C3: an operation that succeeds at once\<close>

text \<open>
  Claim C3. When the first attempt succeeds, the operation is invoked exactly once,
  nothing is slept, and the loop reports success.
\<close>

theorem retry_first_success:
  assumes "fst (op w) = None"
  shows "invocations (snd (snd (retry op c w))) = 1
    \<and> total_sleep (snd (snd (retry op c w))) = 0
    \<and> sleeps (snd (snd (retry op c w))) = []
    \<and> fst (retry op c w) = None"
  using assms
  by (cases "op w")
    (simp add: retry_def retrySecondsList_def invocations_def total_sleep_def)

theorem retry_first_success_witness:
  "fst ((\<lambda>n::nat. (None :: string option, Suc n)) 0) = None
   \<and> invocations (snd (snd (retry (\<lambda>n::nat. (None :: string option, Suc n)) () 0))) = 1
   \<and> total_sleep (snd (snd (retry (\<lambda>n::nat. (None :: string option, Suc n)) () 0))) = 0
   \<and> snd (retry (\<lambda>n::nat. (None :: string option, Suc n)) () 0) = (1, [Call ()])"
proof -
  have h: "fst ((\<lambda>n::nat. (None :: string option, Suc n)) 0) = None" by simp
  have t: "snd (retry (\<lambda>n::nat. (None :: string option, Suc n)) () 0) = (1, [Call ()])"
    by (simp add: retry_def retrySecondsList_def)
  show ?thesis
    using h t retry_first_success [of "\<lambda>n::nat. (None :: string option, Suc n)" 0 "()"]
    by simp
qed

subsection \<open>C4: success on the sixth attempt\<close>

text \<open>
  Claim C4. When attempts 1 to 5 fail and attempt 6 succeeds, the loop reports success
  after exactly six invocations: the remote state it leaves is the one that six
  successive invocations of the operation leave, and its trace is six calls with sleeps
  of 1, 2, 5, 8 and 10 seconds between them, at least 26 seconds in all.
\<close>

theorem retry_sixth_success:
  assumes "map succeeded (results op w 6) = [False, False, False, False, False, True]"
  shows "fst (retry op c w) = None
    \<and> invocations (snd (snd (retry op c w))) = 6
    \<and> fst (snd (retry op c w)) = world_after op w 6
    \<and> snd (snd (retry op c w))
        = [Call c, Sleep 1, Call c, Sleep 2, Call c, Sleep 5, Call c, Sleep 8, Call c, Sleep 10, Call c]
    \<and> 26 \<le> total_sleep (snd (snd (retry op c w)))
    \<and> sleeps (snd (snd (retry op c w))) = [1, 2, 5, 8, 10]"
proof -
  have k: "leading_failures (results op w 6) = 5"
    by (simp add: leading_failures_map assms)
  have t: "snd (snd (retry op c w))
      = [Call c, Sleep 1, Call c, Sleep 2, Call c, Sleep 5, Call c, Sleep 8, Call c, Sleep 10, Call c]"
    by (simp add: retry_trace k shape_five)
  have s: "sleeps (snd (snd (retry op c w))) = take 5 retrySecondsList"
    by (simp add: retry_trace shape_sleeps k)
  have i: "invocations (snd (snd (retry op c w))) = 6"
    by (simp add: retry_invocations k)
  have e: "fst (retry op c w) = None"
    by (simp add: retry_err k)
  have w: "fst (snd (retry op c w)) = world_after op w 6"
    by (simp add: retry_world k)
  show ?thesis
    by (simp add: t e w total_sleep_def invocations_def)
qed

theorem retry_sixth_success_witness:
  "map succeeded (results example_fail_five 0 6) = [False, False, False, False, False, True]
   \<and> fst (retry example_fail_five () 0) = None
   \<and> invocations (snd (snd (retry example_fail_five () 0))) = 6
   \<and> fst (snd (retry example_fail_five () 0)) = 6
   \<and> total_sleep (snd (snd (retry example_fail_five () 0))) = 26"
proof -
  have h: "map succeeded (results example_fail_five 0 6) = [False, False, False, False, False, True]"
    by (simp add: example_fail_five_def succeeded_def eval_nat_numeral)
  have w: "world_after example_fail_five 0 6 = 6"
    by (simp add: example_fail_five_def eval_nat_numeral)
  show ?thesis
    using h w retry_sixth_success [OF h, of "()"] by (simp add: total_sleep_def invocations_def)
qed

subsection \<open>C5: no error introspection\<close>

text \<open>
  Claim C5. Take two operations, on any remote states and with any types of error,
  whose attempts made by the loop succeed and fail at the same places (what they would
  do if invoked again after their first success does not matter). Then the two loops
  do the same thing: their traces (the invocations and the sleeps, in order) are equal,
  with one sleep from the schedule after each failed attempt, each has invoked its
  operation as many times as there are attempts, leaving the remote state those
  invocations leave, and each returns the result of its last attempt as the operation
  returned it: that attempt's error, or nil when it succeeded.
\<close>

theorem retry_no_introspection:
  assumes "map succeeded (attempts_made (results op1 w1 6))
         = map succeeded (attempts_made (results op2 w2 6))"
  shows "snd (snd (retry op1 c w1)) = snd (snd (retry op2 c w2))
    \<and> invocations (snd (snd (retry op1 c w1))) = length (attempts_made (results op1 w1 6))
    \<and> invocations (snd (snd (retry op2 c w2))) = length (attempts_made (results op2 w2 6))
    \<and> fst (snd (retry op1 c w1)) = world_after op1 w1 (length (attempts_made (results op1 w1 6)))
    \<and> fst (snd (retry op2 c w2)) = world_after op2 w2 (length (attempts_made (results op2 w2 6)))
    \<and> fst (retry op1 c w1) = last (attempts_made (results op1 w1 6))
    \<and> fst (retry op2 c w2) = last (attempts_made (results op2 w2 6))
    \<and> sleeps (snd (snd (retry op1 c w1)))
        = take (length (filter (\<lambda>r. \<not> succeeded r) (attempts_made (results op1 w1 6))))
            retrySecondsList"
proof -
  have "leading_failures (attempts_made (results op1 w1 6))
      = leading_failures (attempts_made (results op2 w2 6))"
    by (simp add: leading_failures_map assms)
  then have k: "leading_failures (results op1 w1 6) = leading_failures (results op2 w2 6)"
    by (simp add: leading_failures_attempts_made)
  have l1: "fst (retry op1 c w1) = last (attempts_made (results op1 w1 6))"
    using retry_last_result [of op1 c w1]
    by (simp add: attempts_made_last retry_invocations)
  have l2: "fst (retry op2 c w2) = last (attempts_made (results op2 w2 6))"
    using retry_last_result [of op2 c w2]
    by (simp add: attempts_made_last retry_invocations)
  have tr: "snd (snd (retry op1 c w1)) = snd (snd (retry op2 c w2))"
    by (simp add: retry_trace k)
  have i1: "invocations (snd (snd (retry op1 c w1))) = length (attempts_made (results op1 w1 6))"
    by (simp add: retry_invocations attempts_made_length)
  have i2: "invocations (snd (snd (retry op2 c w2))) = length (attempts_made (results op2 w2 6))"
    by (simp add: retry_invocations attempts_made_length)
  have s1: "fst (snd (retry op1 c w1)) = world_after op1 w1 (length (attempts_made (results op1 w1 6)))"
    by (simp add: retry_world attempts_made_length)
  have s2: "fst (snd (retry op2 c w2)) = world_after op2 w2 (length (attempts_made (results op2 w2 6)))"
    by (simp add: retry_world attempts_made_length)
  have sl: "sleeps (snd (snd (retry op1 c w1)))
      = take (length (filter (\<lambda>r. \<not> succeeded r) (attempts_made (results op1 w1 6))))
          retrySecondsList"
    by (simp add: retry_trace shape_sleeps leading_failures_six failed_attempts_made)
  from tr i1 i2 s1 s2 l1 l2 sl show ?thesis by blast
qed

text \<open>
  A create that fails once and then succeeds for good, and an update that succeeds on
  its second invocation only and fails with numbers otherwise: the attempts made agree,
  though the operations do not agree later.
\<close>

theorem retry_no_introspection_witness:
  "map succeeded (results example_create 0 6) = [False, True, True, True, True, True]
   \<and> map succeeded (results example_update 0 6) = [False, True, False, False, False, False]
   \<and> snd (snd (retry example_create () 0)) = [Call (), Sleep 1, Call ()]
   \<and> snd (snd (retry example_update () 0)) = [Call (), Sleep 1, Call ()]
   \<and> fst (snd (retry example_create () 0)) = 2
   \<and> fst (snd (retry example_update () 0)) = 2
   \<and> fst (retry example_create () 0) = None
   \<and> fst (retry example_update () 0) = None"
proof -
  have r1: "results example_create 0 6
      = [Some ''Unable to assume role'', None, None, None, None, None]"
    by (simp add: example_create_def eval_nat_numeral)
  have r2: "results example_update 0 6 = [Some 0, None, Some 2, Some 3, Some 4, Some 5]"
    by (simp add: example_update_def eval_nat_numeral)
  have a1: "attempts_made (results example_create 0 6) = [Some ''Unable to assume role'', None]"
    by (simp add: r1 attempts_made_def leading_failures_def succeeded_def)
  have a2: "attempts_made (results example_update 0 6) = [Some 0, None]"
    by (simp add: r2 attempts_made_def leading_failures_def succeeded_def)
  have h: "map succeeded (attempts_made (results example_create 0 6))
      = map succeeded (attempts_made (results example_update 0 6))"
    by (simp add: a1 a2 succeeded_def)
  have t: "snd (snd (retry example_update () 0)) = [Call (), Sleep 1, Call ()]"
    by (simp add: retry_def retrySecondsList_def example_update_def)
  have p1: "map succeeded (results example_create 0 6) = [False, True, True, True, True, True]"
    by (simp add: r1 succeeded_def)
  have p2: "map succeeded (results example_update 0 6) = [False, True, False, False, False, False]"
    by (simp add: r2 succeeded_def)
  show ?thesis
    using p1 p2 t retry_no_introspection [OF h, of "()"]
    by (simp add: a1 a2 invocations_def example_create_def example_update_def)
qed

section \<open>Properties of the resources\<close>

lemma clientToken_forwarded: "clientToken env = forwarded_token env"
  by (simp add: clientToken_def forwarded_token_def Getenv_def Let_def split: option.splits)

lemma and_then_Ret: "and_then m f = Ret y \<longleftrightarrow> (\<exists>x. m = Ret x \<and> f x = Ret y)"
  by (cases m) auto

lemma createGroupVersion_token:
  "\<forall>p \<in> set (group_version_requests (trace (snd (createGroupVersion env conn (s\<lparr>trace := []\<rparr>))))).
     gv_AmznClientToken p = clientToken env"
  unfolding createGroupVersion_def
  by (auto simp: and_then_Ret split: run.splits list.splits prod.splits)

lemma createLoggerDefinitionVersion_token:
  "\<forall>p \<in> set (logger_version_requests
       (trace (snd (createLoggerDefinitionVersion env conn (s\<lparr>trace := []\<rparr>))))).
     ldv_AmznClientToken p = clientToken env"
  unfolding createLoggerDefinitionVersion_def
  by (auto simp: and_then_Ret split: run.splits list.splits prod.splits)

subsection \<open>C6: the client token of a version-creation call\<close>

text \<open>
  Claim C6. Every request for a new group version or logger definition version that
  the two functions send carries, as its token, the value of the environment variable
  \<open>AMZN_CLIENT_TOKEN\<close> when that variable is present and not empty, and no token
  otherwise.
\<close>

theorem version_requests_client_token:
  "(\<forall>p \<in> set (group_version_requests (trace (snd (createGroupVersion env conn (s\<lparr>trace := []\<rparr>))))).
      gv_AmznClientToken p = forwarded_token env)
   \<and> (\<forall>p \<in> set (logger_version_requests
          (trace (snd (createLoggerDefinitionVersion env conn (s\<lparr>trace := []\<rparr>))))).
      ldv_AmznClientToken p = forwarded_token env)"
  using createGroupVersion_token [of env conn s] createLoggerDefinitionVersion_token [of env conn s]
  by (simp add: clientToken_forwarded)

text \<open>
  With the variable set to \<open>tok-7\<close> both requests carry it; with the variable empty or
  not present the request carries no token.
\<close>

theorem version_requests_client_token_witness:
  "map gv_AmznClientToken (group_version_requests (trace (snd
      (createGroupVersion (Map.empty(''AMZN_CLIENT_TOKEN'' \<mapsto> ''tok-7'')) example_greengrass
         (example_group\<lparr>trace := []\<rparr>))))) = [Some ''tok-7'']
   \<and> map ldv_AmznClientToken (logger_version_requests (trace (snd
      (createLoggerDefinitionVersion (Map.empty(''AMZN_CLIENT_TOKEN'' \<mapsto> ''tok-7'')) example_greengrass
         (example_group\<lparr>trace := []\<rparr>))))) = [Some ''tok-7'']
   \<and> map gv_AmznClientToken (group_version_requests (trace (snd
      (createGroupVersion (Map.empty(''AMZN_CLIENT_TOKEN'' \<mapsto> [])) example_greengrass
         (example_group\<lparr>trace := []\<rparr>))))) = [None]
   \<and> map gv_AmznClientToken (group_version_requests (trace (snd
      (createGroupVersion Map.empty example_greengrass
         (example_group\<lparr>trace := []\<rparr>))))) = [None]"
  using version_requests_client_token
    [of "Map.empty(''AMZN_CLIENT_TOKEN'' \<mapsto> ''tok-7'')" example_greengrass example_group]
  by (simp add: createGroupVersion_def createLoggerDefinitionVersion_def example_greengrass_def
      example_group_def Get_def optString_def clientToken_def Getenv_def)

subsection \<open>C8: a retention period of one day\<close>

text \<open>
  Claim C8. \<open>parseRetentionPeriod\<close> forwards \<open>number_of_days\<close> only when it is greater
  than 1. The value 1, which the schema's validator accepts, gives a retention period
  whose \<open>NumberOfDays\<close> is nil.
\<close>

theorem parseRetentionPeriod_number_of_days:
  assumes "raw ''number_of_days'' = Some (AInt n)"
      and "raw ''unlimited'' = map_option ABool u"
  shows "parseRetentionPeriod raw
      = Ret \<lparr>NumberOfDays = (if 1 < n then Some n else None), Unlimited = u\<rparr>
    \<and> (n = 1 \<longrightarrow> IntAtLeast 1 (AInt n)
          \<and> parseRetentionPeriod raw = Ret \<lparr>NumberOfDays = None, Unlimited = u\<rparr>)"
  using assms
  by (cases u) (auto simp: parseRetentionPeriod_def)

theorem parseRetentionPeriod_number_of_days_witness:
  "IntAtLeast 1 (AInt 1)
   \<and> parseRetentionPeriod example_one_day = Ret \<lparr>NumberOfDays = None, Unlimited = None\<rparr>"
proof -
  have a: "example_one_day ''number_of_days'' = Some (AInt 1)"
    by (simp add: example_one_day_def)
  have b: "example_one_day ''unlimited'' = map_option ABool None"
    by (simp add: example_one_day_def)
  show ?thesis
    using parseRetentionPeriod_number_of_days [OF a b] by simp
qed

subsection \<open>C9: the round trip of customer-managed S3 storage\<close>

text \<open>
  Claim C9. For a customer-managed S3 storage whose bucket and role are not nil,
  parsing what \<open>flattenCustomerManagedS3\<close> returns gives the storage back, except that
  a key prefix that is the empty string comes back as nil.
\<close>

theorem customerManagedS3_roundtrip:
  assumes "Bucket x \<noteq> None" and "RoleArn x \<noteq> None"
  shows "parseCustomerManagedS3 (entries (flattenCustomerManagedS3 (Some x)))
    = Ret (if KeyPrefix x = Some [] then x\<lparr>KeyPrefix := None\<rparr> else x)"
  using assms
  by (cases x) (auto simp: parseCustomerManagedS3_def flattenCustomerManagedS3_def
      StringValue_def Let_def Suc_le_eq)

theorem customerManagedS3_roundtrip_witness:
  "parseCustomerManagedS3 (entries (flattenCustomerManagedS3
      (Some \<lparr>Bucket = Some ''b'', KeyPrefix = Some ''logs/'', RoleArn = Some ''arn:role''\<rparr>)))
     = Ret \<lparr>Bucket = Some ''b'', KeyPrefix = Some ''logs/'', RoleArn = Some ''arn:role''\<rparr>
   \<and> parseCustomerManagedS3 (entries (flattenCustomerManagedS3
      (Some \<lparr>Bucket = Some ''b'', KeyPrefix = Some [], RoleArn = Some ''arn:role''\<rparr>)))
     = Ret \<lparr>Bucket = Some ''b'', KeyPrefix = None, RoleArn = Some ''arn:role''\<rparr>"
  using customerManagedS3_roundtrip
      [of "\<lparr>Bucket = Some ''b'', KeyPrefix = Some ''logs/'', RoleArn = Some ''arn:role''\<rparr>"]
    customerManagedS3_roundtrip
      [of "\<lparr>Bucket = Some ''b'', KeyPrefix = Some [], RoleArn = Some ''arn:role''\<rparr>"]
  by simp

subsection \<open>C10: no version block\<close>

text \<open>
  Claim C10. When the set \<open>group_version\<close> (for \<open>createGroupVersion\<close>) or
  \<open>logger_definition_version\<close> (for \<open>createLoggerDefinitionVersion\<close>) of the
  configuration is empty, the function returns nil and leaves everything as it was:
  the resource data, the remote state, and the trace, to which no call is added.
\<close>

theorem version_absent_no_call:
  "(Get (rd s) ''group_version'' = Some (ASet [])
      \<longrightarrow> createGroupVersion env conn s = (Ret None, s))
   \<and> (Get (rd s) ''logger_definition_version'' = Some (ASet [])
      \<longrightarrow> createLoggerDefinitionVersion env conn s = (Ret None, s))"
  by (simp add: createGroupVersion_def createLoggerDefinitionVersion_def)

theorem version_absent_no_call_witness:
  "createGroupVersion Map.empty example_greengrass example_no_version
     = (Ret None, example_no_version)
   \<and> createLoggerDefinitionVersion Map.empty example_greengrass example_no_version
       = (Ret None, example_no_version)
   \<and> trace example_no_version = []
   \<and> remote example_no_version = 0"
proof -
  have a: "Get (rd example_no_version) ''group_version'' = Some (ASet [])"
    and b: "Get (rd example_no_version) ''logger_definition_version'' = Some (ASet [])"
    and c: "trace example_no_version = []"
    and d: "remote example_no_version = 0"
    by (simp_all add: example_no_version_def Get_def)
  show ?thesis
    using a b c d version_absent_no_call [of example_no_version Map.empty example_greengrass]
    by simp
qed

subsection \<open>C7: create sets the id and reads the resource\<close>

lemma retryLoop_prefix:
  "retryLoop op c sched err (w, tr) =
     (case retryLoop op c sched err (w, []) of (e, w', t) \<Rightarrow> (e, w', tr @ t))"
proof (induction sched arbitrary: w tr err)
  case Nil
  show ?case by simp
next
  case (Cons x sched)
  obtain r w' where ow: "op w = (r, w')" by (cases "op w")
  show ?case
  proof (cases r)
    case None
    with ow show ?thesis by simp
  next
    case (Some e)
    have a: "retryLoop op c sched (Some e) (w', tr @ [Call c, Sleep x]) =
        (case retryLoop op c sched (Some e) (w', []) of
           (e', w'', t) \<Rightarrow> (e', w'', (tr @ [Call c, Sleep x]) @ t))"
      by (rule Cons.IH)
    have b: "retryLoop op c sched (Some e) (w', [Call c, Sleep x]) =
        (case retryLoop op c sched (Some e) (w', []) of
           (e', w'', t) \<Rightarrow> (e', w'', [Call c, Sleep x] @ t))"
      by (rule Cons.IH)
    from ow Some show ?thesis
      by (simp add: a b split: prod.splits)
  qed
qed

lemma retryLoop_as_retry:
  "retryLoop op c retrySecondsList None (w, tr) =
     (fst (retry op c w), fst (snd (retry op c w)), tr @ snd (snd (retry op c w)))"
  unfolding retry_def
  by (subst retryLoop_prefix) (simp split: prod.splits)

lemma leading_failures_less:
  "leading_failures rs < length rs \<longleftrightarrow> None \<in> set rs"
  unfolding leading_failures_def
  by (induction rs) (auto simp: succeeded_def)

lemma retry_success_iff:
  "fst (retry op c w) = None \<longleftrightarrow> None \<in> set (results op w 6)"
proof (cases "leading_failures (results op w 6) < 6")
  case True
  with leading_failures_less [of "results op w 6"] show ?thesis
    by (simp add: retry_err)
next
  case False
  with leading_failures_less [of "results op w 6"]
  have n: "None \<notin> set (results op w 6)" by simp
  have "results op w 6 \<noteq> []" by (rule results_nonempty) simp
  then have "last (results op w 6) \<in> set (results op w 6)" by (rule last_in_set)
  with n have "last (results op w 6) \<noteq> None" by metis
  with False n show ?thesis by (simp add: retry_err)
qed

lemma set_ids_append: "set_ids (xs @ ys) = set_ids xs @ set_ids ys"
  by (induction xs rule: set_ids.induct) auto

lemma retry_set_ids: "set_ids (snd (snd (retry op c w))) = []"
  using le_six_cases [OF leading_failures_six [of op w]]
  by (auto simp: retry_trace shape_def retrySecondsList_def)

lemma setReadAttributes_id: "rd_id (snd (setReadAttributes d n st rp)) = rd_id d"
  by (simp add: setReadAttributes_def Set_attr_def Let_def split: run.splits)

lemma channelRead_id_trace:
  "rd_id (rd (snd (resourceAwsIotAnalyticsChannelRead conn s))) = rd_id (rd s)
   \<and> trace (snd (resourceAwsIotAnalyticsChannelRead conn s))
       = trace s @ [Call (DescribeChannelCall \<lparr>dc_ChannelName = Some (rd_id (rd s))\<rparr>)]"
proof -
  obtain res w' where d: "DescribeChannel conn \<lparr>dc_ChannelName = Some (rd_id (rd s))\<rparr> (remote s) = (res, w')"
    by (cases "DescribeChannel conn \<lparr>dc_ChannelName = Some (rd_id (rd s))\<rparr> (remote s)")
  show ?thesis
  proof (cases res)
    case (Inl e)
    with d show ?thesis by (simp add: resourceAwsIotAnalyticsChannelRead_def)
  next
    case (Inr out)
    show ?thesis
    proof (cases "dco_Channel out")
      case None
      with d Inr show ?thesis by (simp add: resourceAwsIotAnalyticsChannelRead_def)
    next
      case (Some ch)
      obtain o' d' where r: "setReadAttributes (rd s) (ch_Name ch) (ch_Storage ch) (ch_RetentionPeriod ch) = (o', d')"
        by (cases "setReadAttributes (rd s) (ch_Name ch) (ch_Storage ch) (ch_RetentionPeriod ch)")
      with setReadAttributes_id [of "rd s" "ch_Name ch" "ch_Storage ch" "ch_RetentionPeriod ch"]
      have "rd_id d' = rd_id (rd s)" by simp
      with d Inr Some r show ?thesis
        by (cases o') (simp_all add: resourceAwsIotAnalyticsChannelRead_def)
    qed
  qed
qed

lemma datastoreRead_id_trace:
  "rd_id (rd (snd (resourceAwsIotAnalyticsDatastoreRead conn s))) = rd_id (rd s)
   \<and> trace (snd (resourceAwsIotAnalyticsDatastoreRead conn s))
       = trace s @ [Call (DescribeDatastoreCall \<lparr>dd_DatastoreName = Some (rd_id (rd s))\<rparr>)]"
proof -
  obtain res w' where d: "DescribeDatastore conn \<lparr>dd_DatastoreName = Some (rd_id (rd s))\<rparr> (remote s) = (res, w')"
    by (cases "DescribeDatastore conn \<lparr>dd_DatastoreName = Some (rd_id (rd s))\<rparr> (remote s)")
  show ?thesis
  proof (cases res)
    case (Inl e)
    with d show ?thesis by (simp add: resourceAwsIotAnalyticsDatastoreRead_def)
  next
    case (Inr out)
    show ?thesis
    proof (cases "ddo_Datastore out")
      case None
      with d Inr show ?thesis by (simp add: resourceAwsIotAnalyticsDatastoreRead_def)
    next
      case (Some ds)
      obtain o' d' where r: "setReadAttributes (rd s) (ds_Name ds) (ds_Storage ds) (ds_RetentionPeriod ds) = (o', d')"
        by (cases "setReadAttributes (rd s) (ds_Name ds) (ds_Storage ds) (ds_RetentionPeriod ds)")
      with setReadAttributes_id [of "rd s" "ds_Name ds" "ds_Storage ds" "ds_RetentionPeriod ds"]
      have "rd_id d' = rd_id (rd s)" by simp
      with d Inr Some r show ?thesis
        by (cases o') (simp_all add: resourceAwsIotAnalyticsDatastoreRead_def)
    qed
  qed
qed

lemma channelCreate_success:
  assumes n: "Get (rd s) ''name'' = Some (AString name)"
      and p: "createChannelParams (rd s) = Ret params"
      and ok: "None \<in> set (results (CreateChannel conn params) (remote s) 6)"
  shows "rd_id (rd (snd (resourceAwsIotAnalyticsChannelCreate conn s))) = name
    \<and> trace (snd (resourceAwsIotAnalyticsChannelCreate conn s))
        = trace s @ snd (snd (retry (CreateChannel conn params) (CreateChannelCall params) (remote s)))
          @ [SetId name, Call (DescribeChannelCall \<lparr>dc_ChannelName = Some name\<rparr>)]"
proof -
  let ?r = "retry (CreateChannel conn params) (CreateChannelCall params) (remote s)"
  let ?s1 = "s\<lparr>rd := SetId_rd (rd s) name, remote := fst (snd ?r),
      trace := (trace s @ snd (snd ?r)) @ [SetId name]\<rparr>"
  from ok have e: "fst ?r = None" by (simp add: retry_success_iff)
  have c: "resourceAwsIotAnalyticsChannelCreate conn s = resourceAwsIotAnalyticsChannelRead conn ?s1"
    by (simp add: resourceAwsIotAnalyticsChannelCreate_def p retryLoop_as_retry e n)
  show ?thesis
    using channelRead_id_trace [of conn ?s1]
    by (simp add: c SetId_rd_def)
qed

lemma channelCreate_failure:
  assumes p: "createChannelParams (rd s) = Ret params"
      and ko: "None \<notin> set (results (CreateChannel conn params) (remote s) 6)"
  shows "fst (resourceAwsIotAnalyticsChannelCreate conn s)
        = Ret (results (CreateChannel conn params) (remote s) 6 ! 5)
    \<and> results (CreateChannel conn params) (remote s) 6 ! 5 \<noteq> None
    \<and> rd (snd (resourceAwsIotAnalyticsChannelCreate conn s)) = rd s
    \<and> set_ids (trace (snd (resourceAwsIotAnalyticsChannelCreate conn s))) = set_ids (trace s)"
proof -
  let ?op = "CreateChannel conn params"
  let ?r = "retry ?op (CreateChannelCall params) (remote s)"
  from ko have a: "\<forall>r \<in> set (results ?op (remote s) 6). r \<noteq> None" by metis
  have k: "leading_failures (results ?op (remote s) 6) = 6"
    using leading_failures_all [OF a] by simp
  have "results ?op (remote s) 6 ! 5 \<in> set (results ?op (remote s) 6)"
    by (rule nth_mem) simp
  with a obtain e where e: "results ?op (remote s) 6 ! 5 = Some e" by blast
  then have f: "fst ?r = Some e"
    by (simp add: retry_err k last_results_six)
  show ?thesis
    using retry_set_ids [of ?op "CreateChannelCall params" "remote s"]
    by (simp add: resourceAwsIotAnalyticsChannelCreate_def p retryLoop_as_retry f e set_ids_append)
qed

lemma datastoreCreate_success:
  assumes n: "Get (rd s) ''name'' = Some (AString name)"
      and p: "createDatastoreParams (rd s) = Ret params"
      and ok: "None \<in> set (results (CreateDatastore conn params) (remote s) 6)"
  shows "rd_id (rd (snd (resourceAwsIotAnalyticsDatastoreCreate conn s))) = name
    \<and> trace (snd (resourceAwsIotAnalyticsDatastoreCreate conn s))
        = trace s @ snd (snd (retry (CreateDatastore conn params) (CreateDatastoreCall params) (remote s)))
          @ [SetId name, Call (DescribeDatastoreCall \<lparr>dd_DatastoreName = Some name\<rparr>)]"
proof -
  let ?r = "retry (CreateDatastore conn params) (CreateDatastoreCall params) (remote s)"
  let ?s1 = "s\<lparr>rd := SetId_rd (rd s) name, remote := fst (snd ?r),
      trace := (trace s @ snd (snd ?r)) @ [SetId name]\<rparr>"
  from ok have e: "fst ?r = None" by (simp add: retry_success_iff)
  have c: "resourceAwsIotAnalyticsDatastoreCreate conn s = resourceAwsIotAnalyticsDatastoreRead conn ?s1"
    by (simp add: resourceAwsIotAnalyticsDatastoreCreate_def p retryLoop_as_retry e n)
  show ?thesis
    using datastoreRead_id_trace [of conn ?s1]
    by (simp add: c SetId_rd_def)
qed

lemma datastoreCreate_failure:
  assumes p: "createDatastoreParams (rd s) = Ret params"
      and ko: "None \<notin> set (results (CreateDatastore conn params) (remote s) 6)"
  shows "fst (resourceAwsIotAnalyticsDatastoreCreate conn s)
        = Ret (results (CreateDatastore conn params) (remote s) 6 ! 5)
    \<and> results (CreateDatastore conn params) (remote s) 6 ! 5 \<noteq> None
    \<and> rd (snd (resourceAwsIotAnalyticsDatastoreCreate conn s)) = rd s
    \<and> set_ids (trace (snd (resourceAwsIotAnalyticsDatastoreCreate conn s))) = set_ids (trace s)"
proof -
  let ?op = "CreateDatastore conn params"
  let ?r = "retry ?op (CreateDatastoreCall params) (remote s)"
  from ko have a: "\<forall>r \<in> set (results ?op (remote s) 6). r \<noteq> None" by metis
  have k: "leading_failures (results ?op (remote s) 6) = 6"
    using leading_failures_all [OF a] by simp
  have "results ?op (remote s) 6 ! 5 \<in> set (results ?op (remote s) 6)"
    by (rule nth_mem) simp
  with a obtain e where e: "results ?op (remote s) 6 ! 5 = Some e" by blast
  then have f: "fst ?r = Some e"
    by (simp add: retry_err k last_results_six)
  show ?thesis
    using retry_set_ids [of ?op "CreateDatastoreCall params" "remote s"]
    by (simp add: resourceAwsIotAnalyticsDatastoreCreate_def p retryLoop_as_retry f e set_ids_append)
qed

lemma retry_remote: "fst (snd (retry op c w)) = remote_after_retry op w"
  by (simp add: retry_world remote_after_retry_def attempts_made_length)

lemma remote_after_retry_all_fail:
  "None \<notin> set (results op w 6) \<Longrightarrow> remote_after_retry op w = world_after op w 6"
proof -
  assume "None \<notin> set (results op w 6)"
  then have "\<forall>r \<in> set (results op w 6). r \<noteq> None" by metis
  from leading_failures_all [OF this] show ?thesis
    by (simp add: remote_after_retry_def attempts_made_length)
qed

lemma setReadAttributes_cases:
  "storage = None \<or> retentionPeriod = None
     \<Longrightarrow> fst (setReadAttributes d name storage retentionPeriod) = Panic"
  "flattenStorage storage = Ret m1 \<Longrightarrow> flattenRetentionPeriod retentionPeriod = Ret m2
     \<Longrightarrow> setReadAttributes d name storage retentionPeriod
          = (Ret (stored d name m1 m2), stored d name m1 m2)"
  by (auto simp: setReadAttributes_def flattenStorage_def flattenRetentionPeriod_def
      stored_def Set_attr_def Let_def split: option.splits run.splits)

lemma channelRead_cases:
  assumes d: "DescribeChannel conn \<lparr>dc_ChannelName = Some (rd_id (rd s))\<rparr> (remote s) = (res, w')"
  shows "remote (snd (resourceAwsIotAnalyticsChannelRead conn s)) = w'"
    and "res = Inl e \<Longrightarrow> resourceAwsIotAnalyticsChannelRead conn s
          = (Ret (Some e), s\<lparr>remote := w',
               trace := trace s @ [Call (DescribeChannelCall \<lparr>dc_ChannelName = Some (rd_id (rd s))\<rparr>)]\<rparr>)"
    and "res = Inr out \<Longrightarrow> dco_Channel out = None
          \<Longrightarrow> fst (resourceAwsIotAnalyticsChannelRead conn s) = Panic"
    and "res = Inr out \<Longrightarrow> dco_Channel out = Some ch
          \<Longrightarrow> ch_Storage ch = None \<or> ch_RetentionPeriod ch = None
          \<Longrightarrow> fst (resourceAwsIotAnalyticsChannelRead conn s) = Panic"
    and "res = Inr out \<Longrightarrow> dco_Channel out = Some ch
          \<Longrightarrow> flattenStorage (ch_Storage ch) = Ret m1
          \<Longrightarrow> flattenRetentionPeriod (ch_RetentionPeriod ch) = Ret m2
          \<Longrightarrow> resourceAwsIotAnalyticsChannelRead conn s
            = (Ret None, s\<lparr>rd := stored (rd s) (ch_Name ch) m1 m2, remote := w',
                 trace := trace s @ [Call (DescribeChannelCall \<lparr>dc_ChannelName = Some (rd_id (rd s))\<rparr>)]\<rparr>)"
proof -
  show "remote (snd (resourceAwsIotAnalyticsChannelRead conn s)) = w'"
    using d
    by (simp add: resourceAwsIotAnalyticsChannelRead_def Let_def
        split: sum.splits option.splits prod.splits run.splits)
  show "res = Inl e \<Longrightarrow> resourceAwsIotAnalyticsChannelRead conn s
          = (Ret (Some e), s\<lparr>remote := w',
               trace := trace s @ [Call (DescribeChannelCall \<lparr>dc_ChannelName = Some (rd_id (rd s))\<rparr>)]\<rparr>)"
    using d by (simp add: resourceAwsIotAnalyticsChannelRead_def)
  show "res = Inr out \<Longrightarrow> dco_Channel out = None
          \<Longrightarrow> fst (resourceAwsIotAnalyticsChannelRead conn s) = Panic"
    using d by (simp add: resourceAwsIotAnalyticsChannelRead_def)
  show "res = Inr out \<Longrightarrow> dco_Channel out = Some ch
          \<Longrightarrow> ch_Storage ch = None \<or> ch_RetentionPeriod ch = None
          \<Longrightarrow> fst (resourceAwsIotAnalyticsChannelRead conn s) = Panic"
    using d setReadAttributes_cases(1) [of "ch_Storage ch" "ch_RetentionPeriod ch" "rd s" "ch_Name ch"]
    by (cases "setReadAttributes (rd s) (ch_Name ch) (ch_Storage ch) (ch_RetentionPeriod ch)")
      (auto simp: resourceAwsIotAnalyticsChannelRead_def)
  show "res = Inr out \<Longrightarrow> dco_Channel out = Some ch
          \<Longrightarrow> flattenStorage (ch_Storage ch) = Ret m1
          \<Longrightarrow> flattenRetentionPeriod (ch_RetentionPeriod ch) = Ret m2
          \<Longrightarrow> resourceAwsIotAnalyticsChannelRead conn s
            = (Ret None, s\<lparr>rd := stored (rd s) (ch_Name ch) m1 m2, remote := w',
                 trace := trace s @ [Call (DescribeChannelCall \<lparr>dc_ChannelName = Some (rd_id (rd s))\<rparr>)]\<rparr>)"
    using d
    by (simp add: resourceAwsIotAnalyticsChannelRead_def setReadAttributes_cases(2))
qed

lemma datastoreRead_cases:
  assumes d: "DescribeDatastore conn \<lparr>dd_DatastoreName = Some (rd_id (rd s))\<rparr> (remote s) = (res, w')"
  shows "remote (snd (resourceAwsIotAnalyticsDatastoreRead conn s)) = w'"
    and "res = Inl e \<Longrightarrow> resourceAwsIotAnalyticsDatastoreRead conn s
          = (Ret (Some e), s\<lparr>remote := w',
               trace := trace s @ [Call (DescribeDatastoreCall \<lparr>dd_DatastoreName = Some (rd_id (rd s))\<rparr>)]\<rparr>)"
    and "res = Inr out \<Longrightarrow> ddo_Datastore out = None
          \<Longrightarrow> fst (resourceAwsIotAnalyticsDatastoreRead conn s) = Panic"
    and "res = Inr out \<Longrightarrow> ddo_Datastore out = Some ch
          \<Longrightarrow> ds_Storage ch = None \<or> ds_RetentionPeriod ch = None
          \<Longrightarrow> fst (resourceAwsIotAnalyticsDatastoreRead conn s) = Panic"
    and "res = Inr out \<Longrightarrow> ddo_Datastore out = Some ch
          \<Longrightarrow> flattenStorage (ds_Storage ch) = Ret m1
          \<Longrightarrow> flattenRetentionPeriod (ds_RetentionPeriod ch) = Ret m2
          \<Longrightarrow> resourceAwsIotAnalyticsDatastoreRead conn s
            = (Ret None, s\<lparr>rd := stored (rd s) (ds_Name ch) m1 m2, remote := w',
                 trace := trace s @ [Call (DescribeDatastoreCall \<lparr>dd_DatastoreName = Some (rd_id (rd s))\<rparr>)]\<rparr>)"
proof -
  show "remote (snd (resourceAwsIotAnalyticsDatastoreRead conn s)) = w'"
    using d
    by (simp add: resourceAwsIotAnalyticsDatastoreRead_def Let_def
        split: sum.splits option.splits prod.splits run.splits)
  show "res = Inl e \<Longrightarrow> resourceAwsIotAnalyticsDatastoreRead conn s
          = (Ret (Some e), s\<lparr>remote := w',
               trace := trace s @ [Call (DescribeDatastoreCall \<lparr>dd_DatastoreName = Some (rd_id (rd s))\<rparr>)]\<rparr>)"
    using d by (simp add: resourceAwsIotAnalyticsDatastoreRead_def)
  show "res = Inr out \<Longrightarrow> ddo_Datastore out = None
          \<Longrightarrow> fst (resourceAwsIotAnalyticsDatastoreRead conn s) = Panic"
    using d by (simp add: resourceAwsIotAnalyticsDatastoreRead_def)
  show "res = Inr out \<Longrightarrow> ddo_Datastore out = Some ch
          \<Longrightarrow> ds_Storage ch = None \<or> ds_RetentionPeriod ch = None
          \<Longrightarrow> fst (resourceAwsIotAnalyticsDatastoreRead conn s) = Panic"
    using d setReadAttributes_cases(1) [of "ds_Storage ch" "ds_RetentionPeriod ch" "rd s" "ds_Name ch"]
    by (cases "setReadAttributes (rd s) (ds_Name ch) (ds_Storage ch) (ds_RetentionPeriod ch)")
      (auto simp: resourceAwsIotAnalyticsDatastoreRead_def)
  show "res = Inr out \<Longrightarrow> ddo_Datastore out = Some ch
          \<Longrightarrow> flattenStorage (ds_Storage ch) = Ret m1
          \<Longrightarrow> flattenRetentionPeriod (ds_RetentionPeriod ch) = Ret m2
          \<Longrightarrow> resourceAwsIotAnalyticsDatastoreRead conn s
            = (Ret None, s\<lparr>rd := stored (rd s) (ds_Name ch) m1 m2, remote := w',
                 trace := trace s @ [Call (DescribeDatastoreCall \<lparr>dd_DatastoreName = Some (rd_id (rd s))\<rparr>)]\<rparr>)"
    using d
    by (simp add: resourceAwsIotAnalyticsDatastoreRead_def setReadAttributes_cases(2))
qed

lemma channelCreate_succeeds:
  assumes n: "Get (rd s) ''name'' = Some (AString name)"
      and p: "createChannelParams (rd s) = Ret params"
      and ok: "None \<in> set (results (CreateChannel conn params) (remote s) 6)"
  shows "resourceAwsIotAnalyticsChannelCreate conn s
      = resourceAwsIotAnalyticsChannelRead conn
          (s\<lparr>rd := (rd s)\<lparr>rd_id := name\<rparr>,
             remote := remote_after_retry (CreateChannel conn params) (remote s),
             trace := trace s
               @ snd (snd (retry (CreateChannel conn params) (CreateChannelCall params) (remote s)))
               @ [SetId name]\<rparr>)"
proof -
  let ?r = "retry (CreateChannel conn params) (CreateChannelCall params) (remote s)"
  from ok have e: "fst ?r = None" by (simp add: retry_success_iff)
  show ?thesis
    by (simp add: resourceAwsIotAnalyticsChannelCreate_def p retryLoop_as_retry e n
        SetId_rd_def retry_remote)
qed

lemma channelCreate_success_read:
  assumes n: "Get (rd s) ''name'' = Some (AString name)"
      and p: "createChannelParams (rd s) = Ret params"
      and ok: "None \<in> set (results (CreateChannel conn params) (remote s) 6)"
      and d: "DescribeChannel conn \<lparr>dc_ChannelName = Some name\<rparr>
                (remote_after_retry (CreateChannel conn params) (remote s)) = (res, w')"
  shows "remote (snd (resourceAwsIotAnalyticsChannelCreate conn s)) = w'"
    and "res = Inl e \<Longrightarrow> fst (resourceAwsIotAnalyticsChannelCreate conn s) = Ret (Some e)
          \<and> rd (snd (resourceAwsIotAnalyticsChannelCreate conn s)) = (rd s)\<lparr>rd_id := name\<rparr>"
    and "res = Inr out \<Longrightarrow> dco_Channel out = None
          \<Longrightarrow> fst (resourceAwsIotAnalyticsChannelCreate conn s) = Panic"
    and "res = Inr out \<Longrightarrow> dco_Channel out = Some ch
          \<Longrightarrow> ch_Storage ch = None \<or> ch_RetentionPeriod ch = None
          \<Longrightarrow> fst (resourceAwsIotAnalyticsChannelCreate conn s) = Panic"
    and "res = Inr out \<Longrightarrow> dco_Channel out = Some ch
          \<Longrightarrow> flattenStorage (ch_Storage ch) = Ret m1
          \<Longrightarrow> flattenRetentionPeriod (ch_RetentionPeriod ch) = Ret m2
          \<Longrightarrow> fst (resourceAwsIotAnalyticsChannelCreate conn s) = Ret None
            \<and> rd (snd (resourceAwsIotAnalyticsChannelCreate conn s))
                = stored ((rd s)\<lparr>rd_id := name\<rparr>) (ch_Name ch) m1 m2"
proof -
  let ?s1 = "s\<lparr>rd := (rd s)\<lparr>rd_id := name\<rparr>,
             remote := remote_after_retry (CreateChannel conn params) (remote s),
             trace := trace s
               @ snd (snd (retry (CreateChannel conn params) (CreateChannelCall params) (remote s)))
               @ [SetId name]\<rparr>"
  have c: "resourceAwsIotAnalyticsChannelCreate conn s = resourceAwsIotAnalyticsChannelRead conn ?s1"
    by (rule channelCreate_succeeds [OF n p ok])
  have d1: "DescribeChannel conn \<lparr>dc_ChannelName = Some (rd_id (rd ?s1))\<rparr> (remote ?s1) = (res, w')"
    using d by simp
  note r = channelRead_cases [OF d1]
  show "remote (snd (resourceAwsIotAnalyticsChannelCreate conn s)) = w'"
    using r(1) by (simp add: c)
  show "res = Inl e \<Longrightarrow> fst (resourceAwsIotAnalyticsChannelCreate conn s) = Ret (Some e)
          \<and> rd (snd (resourceAwsIotAnalyticsChannelCreate conn s)) = (rd s)\<lparr>rd_id := name\<rparr>"
    using r(2) [of e] by (simp add: c)
  show "res = Inr out \<Longrightarrow> dco_Channel out = None
          \<Longrightarrow> fst (resourceAwsIotAnalyticsChannelCreate conn s) = Panic"
    using r(3) [of out] by (simp add: c)
  show "res = Inr out \<Longrightarrow> dco_Channel out = Some ch
          \<Longrightarrow> ch_Storage ch = None \<or> ch_RetentionPeriod ch = None
          \<Longrightarrow> fst (resourceAwsIotAnalyticsChannelCreate conn s) = Panic"
    using r(4) [of out ch] by (simp add: c)
  show "res = Inr out \<Longrightarrow> dco_Channel out = Some ch
          \<Longrightarrow> flattenStorage (ch_Storage ch) = Ret m1
          \<Longrightarrow> flattenRetentionPeriod (ch_RetentionPeriod ch) = Ret m2
          \<Longrightarrow> fst (resourceAwsIotAnalyticsChannelCreate conn s) = Ret None
            \<and> rd (snd (resourceAwsIotAnalyticsChannelCreate conn s))
                = stored ((rd s)\<lparr>rd_id := name\<rparr>) (ch_Name ch) m1 m2"
    using r(5) [of out ch m1 m2] by (simp add: c)
qed

lemma channelCreate_fails:
  assumes p: "createChannelParams (rd s) = Ret params"
      and ko: "None \<notin> set (results (CreateChannel conn params) (remote s) 6)"
  shows "remote (snd (resourceAwsIotAnalyticsChannelCreate conn s))
        = world_after (CreateChannel conn params) (remote s) 6
    \<and> trace (snd (resourceAwsIotAnalyticsChannelCreate conn s))
        = trace s @ snd (snd (retry (CreateChannel conn params) (CreateChannelCall params) (remote s)))"
proof -
  let ?op = "CreateChannel conn params"
  let ?r = "retry ?op (CreateChannelCall params) (remote s)"
  from ko have "fst ?r \<noteq> None" by (simp add: retry_success_iff)
  then obtain e where f: "fst ?r = Some e" by blast
  show ?thesis
    using remote_after_retry_all_fail [OF ko]
    by (simp add: resourceAwsIotAnalyticsChannelCreate_def p retryLoop_as_retry f retry_remote)
qed


lemma datastoreCreate_succeeds:
  assumes n: "Get (rd s) ''name'' = Some (AString name)"
      and p: "createDatastoreParams (rd s) = Ret params"
      and ok: "None \<in> set (results (CreateDatastore conn params) (remote s) 6)"
  shows "resourceAwsIotAnalyticsDatastoreCreate conn s
      = resourceAwsIotAnalyticsDatastoreRead conn
          (s\<lparr>rd := (rd s)\<lparr>rd_id := name\<rparr>,
             remote := remote_after_retry (CreateDatastore conn params) (remote s),
             trace := trace s
               @ snd (snd (retry (CreateDatastore conn params) (CreateDatastoreCall params) (remote s)))
               @ [SetId name]\<rparr>)"
proof -
  let ?r = "retry (CreateDatastore conn params) (CreateDatastoreCall params) (remote s)"
  from ok have e: "fst ?r = None" by (simp add: retry_success_iff)
  show ?thesis
    by (simp add: resourceAwsIotAnalyticsDatastoreCreate_def p retryLoop_as_retry e n
        SetId_rd_def retry_remote)
qed

lemma datastoreCreate_success_read:
  assumes n: "Get (rd s) ''name'' = Some (AString name)"
      and p: "createDatastoreParams (rd s) = Ret params"
      and ok: "None \<in> set (results (CreateDatastore conn params) (remote s) 6)"
      and d: "DescribeDatastore conn \<lparr>dd_DatastoreName = Some name\<rparr>
                (remote_after_retry (CreateDatastore conn params) (remote s)) = (res, w')"
  shows "remote (snd (resourceAwsIotAnalyticsDatastoreCreate conn s)) = w'"
    and "res = Inl e \<Longrightarrow> fst (resourceAwsIotAnalyticsDatastoreCreate conn s) = Ret (Some e)
          \<and> rd (snd (resourceAwsIotAnalyticsDatastoreCreate conn s)) = (rd s)\<lparr>rd_id := name\<rparr>"
    and "res = Inr out \<Longrightarrow> ddo_Datastore out = None
          \<Longrightarrow> fst (resourceAwsIotAnalyticsDatastoreCreate conn s) = Panic"
    and "res = Inr out \<Longrightarrow> ddo_Datastore out = Some ch
          \<Longrightarrow> ds_Storage ch = None \<or> ds_RetentionPeriod ch = None
          \<Longrightarrow> fst (resourceAwsIotAnalyticsDatastoreCreate conn s) = Panic"
    and "res = Inr out \<Longrightarrow> ddo_Datastore out = Some ch
          \<Longrightarrow> flattenStorage (ds_Storage ch) = Ret m1
          \<Longrightarrow> flattenRetentionPeriod (ds_RetentionPeriod ch) = Ret m2
          \<Longrightarrow> fst (resourceAwsIotAnalyticsDatastoreCreate conn s) = Ret None
            \<and> rd (snd (resourceAwsIotAnalyticsDatastoreCreate conn s))
                = stored ((rd s)\<lparr>rd_id := name\<rparr>) (ds_Name ch) m1 m2"
proof -
  let ?s1 = "s\<lparr>rd := (rd s)\<lparr>rd_id := name\<rparr>,
             remote := remote_after_retry (CreateDatastore conn params) (remote s),
             trace := trace s
               @ snd (snd (retry (CreateDatastore conn params) (CreateDatastoreCall params) (remote s)))
               @ [SetId name]\<rparr>"
  have c: "resourceAwsIotAnalyticsDatastoreCreate conn s = resourceAwsIotAnalyticsDatastoreRead conn ?s1"
    by (rule datastoreCreate_succeeds [OF n p ok])
  have d1: "DescribeDatastore conn \<lparr>dd_DatastoreName = Some (rd_id (rd ?s1))\<rparr> (remote ?s1) = (res, w')"
    using d by simp
  note r = datastoreRead_cases [OF d1]
  show "remote (snd (resourceAwsIotAnalyticsDatastoreCreate conn s)) = w'"
    using r(1) by (simp add: c)
  show "res = Inl e \<Longrightarrow> fst (resourceAwsIotAnalyticsDatastoreCreate conn s) = Ret (Some e)
          \<and> rd (snd (resourceAwsIotAnalyticsDatastoreCreate conn s)) = (rd s)\<lparr>rd_id := name\<rparr>"
    using r(2) [of e] by (simp add: c)
  show "res = Inr out \<Longrightarrow> ddo_Datastore out = None
          \<Longrightarrow> fst (resourceAwsIotAnalyticsDatastoreCreate conn s) = Panic"
    using r(3) [of out] by (simp add: c)
  show "res = Inr out \<Longrightarrow> ddo_Datastore out = Some ch
          \<Longrightarrow> ds_Storage ch = None \<or> ds_RetentionPeriod ch = None
          \<Longrightarrow> fst (resourceAwsIotAnalyticsDatastoreCreate conn s) = Panic"
    using r(4) [of out ch] by (simp add: c)
  show "res = Inr out \<Longrightarrow> ddo_Datastore out = Some ch
          \<Longrightarrow> flattenStorage (ds_Storage ch) = Ret m1
          \<Longrightarrow> flattenRetentionPeriod (ds_RetentionPeriod ch) = Ret m2
          \<Longrightarrow> fst (resourceAwsIotAnalyticsDatastoreCreate conn s) = Ret None
            \<and> rd (snd (resourceAwsIotAnalyticsDatastoreCreate conn s))
                = stored ((rd s)\<lparr>rd_id := name\<rparr>) (ds_Name ch) m1 m2"
    using r(5) [of out ch m1 m2] by (simp add: c)
qed

lemma datastoreCreate_fails:
  assumes p: "createDatastoreParams (rd s) = Ret params"
      and ko: "None \<notin> set (results (CreateDatastore conn params) (remote s) 6)"
  shows "remote (snd (resourceAwsIotAnalyticsDatastoreCreate conn s))
        = world_after (CreateDatastore conn params) (remote s) 6
    \<and> trace (snd (resourceAwsIotAnalyticsDatastoreCreate conn s))
        = trace s @ snd (snd (retry (CreateDatastore conn params) (CreateDatastoreCall params) (remote s)))"
proof -
  let ?op = "CreateDatastore conn params"
  let ?r = "retry ?op (CreateDatastoreCall params) (remote s)"
  from ko have "fst ?r \<noteq> None" by (simp add: retry_success_iff)
  then obtain e where f: "fst ?r = Some e" by blast
  show ?thesis
    using remote_after_retry_all_fail [OF ko]
    by (simp add: resourceAwsIotAnalyticsDatastoreCreate_def p retryLoop_as_retry f retry_remote)
qed

lemma channel_create_branches:
  assumes n: "Get (rd s) ''name'' = Some (AString name)"
      and cp: "createChannelParams (rd s) = Ret cp"
  shows "(None \<in> set (results (CreateChannel conn cp) (remote s) 6) \<longrightarrow>
         rd_id (rd (snd (resourceAwsIotAnalyticsChannelCreate conn s))) = name
       \<and> trace (snd (resourceAwsIotAnalyticsChannelCreate conn s))
           = trace s @ snd (snd (retry (CreateChannel conn cp) (CreateChannelCall cp) (remote s)))
             @ [SetId name, Call (DescribeChannelCall \<lparr>dc_ChannelName = Some name\<rparr>)]
       \<and> remote (snd (resourceAwsIotAnalyticsChannelCreate conn s))
           = snd (DescribeChannel conn \<lparr>dc_ChannelName = Some name\<rparr>
               (remote_after_retry (CreateChannel conn cp) (remote s)))
       \<and> (\<forall>e. fst (DescribeChannel conn \<lparr>dc_ChannelName = Some name\<rparr>
                 (remote_after_retry (CreateChannel conn cp) (remote s))) = Inl e \<longrightarrow>
              fst (resourceAwsIotAnalyticsChannelCreate conn s) = Ret (Some e)
            \<and> rd (snd (resourceAwsIotAnalyticsChannelCreate conn s)) = (rd s)\<lparr>rd_id := name\<rparr>)
       \<and> (\<forall>out ch m1 m2.
              fst (DescribeChannel conn \<lparr>dc_ChannelName = Some name\<rparr>
                 (remote_after_retry (CreateChannel conn cp) (remote s))) = Inr out
            \<and> dco_Channel out = Some ch
            \<and> flattenStorage (ch_Storage ch) = Ret m1
            \<and> flattenRetentionPeriod (ch_RetentionPeriod ch) = Ret m2 \<longrightarrow>
              fst (resourceAwsIotAnalyticsChannelCreate conn s) = Ret None
            \<and> rd (snd (resourceAwsIotAnalyticsChannelCreate conn s))
                = stored ((rd s)\<lparr>rd_id := name\<rparr>) (ch_Name ch) m1 m2)
       \<and> (\<forall>out.
              fst (DescribeChannel conn \<lparr>dc_ChannelName = Some name\<rparr>
                 (remote_after_retry (CreateChannel conn cp) (remote s))) = Inr out
            \<and> (dco_Channel out = None
                \<or> (\<exists>ch. dco_Channel out = Some ch
                      \<and> (ch_Storage ch = None \<or> ch_RetentionPeriod ch = None))) \<longrightarrow>
              fst (resourceAwsIotAnalyticsChannelCreate conn s) = Panic))
    \<and> (None \<notin> set (results (CreateChannel conn cp) (remote s) 6) \<longrightarrow>
         fst (resourceAwsIotAnalyticsChannelCreate conn s)
           = Ret (results (CreateChannel conn cp) (remote s) 6 ! 5)
       \<and> results (CreateChannel conn cp) (remote s) 6 ! 5 \<noteq> None
       \<and> rd (snd (resourceAwsIotAnalyticsChannelCreate conn s)) = rd s
       \<and> remote (snd (resourceAwsIotAnalyticsChannelCreate conn s))
           = world_after (CreateChannel conn cp) (remote s) 6
       \<and> trace (snd (resourceAwsIotAnalyticsChannelCreate conn s))
           = trace s @ snd (snd (retry (CreateChannel conn cp) (CreateChannelCall cp) (remote s)))
       \<and> set_ids (trace (snd (resourceAwsIotAnalyticsChannelCreate conn s))) = set_ids (trace s))"
proof (intro conjI impI allI)
  assume ok: "None \<in> set (results (CreateChannel conn cp) (remote s) 6)"
  obtain res w' where d: "DescribeChannel conn \<lparr>dc_ChannelName = Some name\<rparr>
      (remote_after_retry (CreateChannel conn cp) (remote s)) = (res, w')"
    by (cases "DescribeChannel conn \<lparr>dc_ChannelName = Some name\<rparr>
      (remote_after_retry (CreateChannel conn cp) (remote s))")
  note a = channelCreate_success [OF n cp ok]
  note b = channelCreate_success_read [OF n cp ok d]
  show "rd_id (rd (snd (resourceAwsIotAnalyticsChannelCreate conn s))) = name"
    using a by blast
  show "trace (snd (resourceAwsIotAnalyticsChannelCreate conn s))
      = trace s @ snd (snd (retry (CreateChannel conn cp) (CreateChannelCall cp) (remote s)))
        @ [SetId name, Call (DescribeChannelCall \<lparr>dc_ChannelName = Some name\<rparr>)]"
    using a by blast
  show "remote (snd (resourceAwsIotAnalyticsChannelCreate conn s))
      = snd (DescribeChannel conn \<lparr>dc_ChannelName = Some name\<rparr>
          (remote_after_retry (CreateChannel conn cp) (remote s)))"
    using b(1) d by simp
  {
    fix e
    assume "fst (DescribeChannel conn \<lparr>dc_ChannelName = Some name\<rparr>
        (remote_after_retry (CreateChannel conn cp) (remote s))) = Inl e"
    with d have r: "res = Inl e" by simp
    from b(2) [OF r]
    show "fst (resourceAwsIotAnalyticsChannelCreate conn s) = Ret (Some e)"
      and "rd (snd (resourceAwsIotAnalyticsChannelCreate conn s)) = (rd s)\<lparr>rd_id := name\<rparr>"
      by blast+
  }
  {
    fix out ch m1 m2
    assume h: "fst (DescribeChannel conn \<lparr>dc_ChannelName = Some name\<rparr>
          (remote_after_retry (CreateChannel conn cp) (remote s))) = Inr out
        \<and> dco_Channel out = Some ch
        \<and> flattenStorage (ch_Storage ch) = Ret m1
        \<and> flattenRetentionPeriod (ch_RetentionPeriod ch) = Ret m2"
    with d have r: "res = Inr out" by simp
    from b(5) [OF r, of ch m1 m2] h
    show "fst (resourceAwsIotAnalyticsChannelCreate conn s) = Ret None"
      and "rd (snd (resourceAwsIotAnalyticsChannelCreate conn s))
          = stored ((rd s)\<lparr>rd_id := name\<rparr>) (ch_Name ch) m1 m2"
      by blast+
  }
  {
    fix out
    assume h: "fst (DescribeChannel conn \<lparr>dc_ChannelName = Some name\<rparr>
          (remote_after_retry (CreateChannel conn cp) (remote s))) = Inr out
        \<and> (dco_Channel out = None
            \<or> (\<exists>ch. dco_Channel out = Some ch
                  \<and> (ch_Storage ch = None \<or> ch_RetentionPeriod ch = None)))"
    with d have r: "res = Inr out" by simp
    from b(3) [OF r] b(4) [OF r] h
    show "fst (resourceAwsIotAnalyticsChannelCreate conn s) = Panic"
      by auto
  }
next
  assume ko: "None \<notin> set (results (CreateChannel conn cp) (remote s) 6)"
  note a = channelCreate_failure [OF cp ko]
  note b = channelCreate_fails [OF cp ko]
  show "fst (resourceAwsIotAnalyticsChannelCreate conn s)
      = Ret (results (CreateChannel conn cp) (remote s) 6 ! 5)"
    using a by blast
  show "results (CreateChannel conn cp) (remote s) 6 ! 5 \<noteq> None"
    using a by blast
  show "rd (snd (resourceAwsIotAnalyticsChannelCreate conn s)) = rd s"
    using a by blast
  show "remote (snd (resourceAwsIotAnalyticsChannelCreate conn s))
      = world_after (CreateChannel conn cp) (remote s) 6"
    using b by blast
  show "trace (snd (resourceAwsIotAnalyticsChannelCreate conn s))
      = trace s @ snd (snd (retry (CreateChannel conn cp) (CreateChannelCall cp) (remote s)))"
    using b by blast
  show "set_ids (trace (snd (resourceAwsIotAnalyticsChannelCreate conn s))) = set_ids (trace s)"
    using a by blast
qed

lemma datastore_create_branches:
  assumes n: "Get (rd s) ''name'' = Some (AString name)"
      and dp: "createDatastoreParams (rd s) = Ret dp"
  shows "(None \<in> set (results (CreateDatastore conn dp) (remote s) 6) \<longrightarrow>
         rd_id (rd (snd (resourceAwsIotAnalyticsDatastoreCreate conn s))) = name
       \<and> trace (snd (resourceAwsIotAnalyticsDatastoreCreate conn s))
           = trace s @ snd (snd (retry (CreateDatastore conn dp) (CreateDatastoreCall dp) (remote s)))
             @ [SetId name, Call (DescribeDatastoreCall \<lparr>dd_DatastoreName = Some name\<rparr>)]
       \<and> remote (snd (resourceAwsIotAnalyticsDatastoreCreate conn s))
           = snd (DescribeDatastore conn \<lparr>dd_DatastoreName = Some name\<rparr>
               (remote_after_retry (CreateDatastore conn dp) (remote s)))
       \<and> (\<forall>e. fst (DescribeDatastore conn \<lparr>dd_DatastoreName = Some name\<rparr>
                 (remote_after_retry (CreateDatastore conn dp) (remote s))) = Inl e \<longrightarrow>
              fst (resourceAwsIotAnalyticsDatastoreCreate conn s) = Ret (Some e)
            \<and> rd (snd (resourceAwsIotAnalyticsDatastoreCreate conn s)) = (rd s)\<lparr>rd_id := name\<rparr>)
       \<and> (\<forall>out ds m1 m2.
              fst (DescribeDatastore conn \<lparr>dd_DatastoreName = Some name\<rparr>
                 (remote_after_retry (CreateDatastore conn dp) (remote s))) = Inr out
            \<and> ddo_Datastore out = Some ds
            \<and> flattenStorage (ds_Storage ds) = Ret m1
            \<and> flattenRetentionPeriod (ds_RetentionPeriod ds) = Ret m2 \<longrightarrow>
              fst (resourceAwsIotAnalyticsDatastoreCreate conn s) = Ret None
            \<and> rd (snd (resourceAwsIotAnalyticsDatastoreCreate conn s))
                = stored ((rd s)\<lparr>rd_id := name\<rparr>) (ds_Name ds) m1 m2)
       \<and> (\<forall>out.
              fst (DescribeDatastore conn \<lparr>dd_DatastoreName = Some name\<rparr>
                 (remote_after_retry (CreateDatastore conn dp) (remote s))) = Inr out
            \<and> (ddo_Datastore out = None
                \<or> (\<exists>ds. ddo_Datastore out = Some ds
                      \<and> (ds_Storage ds = None \<or> ds_RetentionPeriod ds = None))) \<longrightarrow>
              fst (resourceAwsIotAnalyticsDatastoreCreate conn s) = Panic))
    \<and> (None \<notin> set (results (CreateDatastore conn dp) (remote s) 6) \<longrightarrow>
         fst (resourceAwsIotAnalyticsDatastoreCreate conn s)
           = Ret (results (CreateDatastore conn dp) (remote s) 6 ! 5)
       \<and> results (CreateDatastore conn dp) (remote s) 6 ! 5 \<noteq> None
       \<and> rd (snd (resourceAwsIotAnalyticsDatastoreCreate conn s)) = rd s
       \<and> remote (snd (resourceAwsIotAnalyticsDatastoreCreate conn s))
           = world_after (CreateDatastore conn dp) (remote s) 6
       \<and> trace (snd (resourceAwsIotAnalyticsDatastoreCreate conn s))
           = trace s @ snd (snd (retry (CreateDatastore conn dp) (CreateDatastoreCall dp) (remote s)))
       \<and> set_ids (trace (snd (resourceAwsIotAnalyticsDatastoreCreate conn s))) = set_ids (trace s))"
proof (intro conjI impI allI)
  assume ok: "None \<in> set (results (CreateDatastore conn dp) (remote s) 6)"
  obtain res w' where d: "DescribeDatastore conn \<lparr>dd_DatastoreName = Some name\<rparr>
      (remote_after_retry (CreateDatastore conn dp) (remote s)) = (res, w')"
    by (cases "DescribeDatastore conn \<lparr>dd_DatastoreName = Some name\<rparr>
      (remote_after_retry (CreateDatastore conn dp) (remote s))")
  note a = datastoreCreate_success [OF n dp ok]
  note b = datastoreCreate_success_read [OF n dp ok d]
  show "rd_id (rd (snd (resourceAwsIotAnalyticsDatastoreCreate conn s))) = name"
    using a by blast
  show "trace (snd (resourceAwsIotAnalyticsDatastoreCreate conn s))
      = trace s @ snd (snd (retry (CreateDatastore conn dp) (CreateDatastoreCall dp) (remote s)))
        @ [SetId name, Call (DescribeDatastoreCall \<lparr>dd_DatastoreName = Some name\<rparr>)]"
    using a by blast
  show "remote (snd (resourceAwsIotAnalyticsDatastoreCreate conn s))
      = snd (DescribeDatastore conn \<lparr>dd_DatastoreName = Some name\<rparr>
          (remote_after_retry (CreateDatastore conn dp) (remote s)))"
    using b(1) d by simp
  {
    fix e
    assume "fst (DescribeDatastore conn \<lparr>dd_DatastoreName = Some name\<rparr>
        (remote_after_retry (CreateDatastore conn dp) (remote s))) = Inl e"
    with d have r: "res = Inl e" by simp
    from b(2) [OF r]
    show "fst (resourceAwsIotAnalyticsDatastoreCreate conn s) = Ret (Some e)"
      and "rd (snd (resourceAwsIotAnalyticsDatastoreCreate conn s)) = (rd s)\<lparr>rd_id := name\<rparr>"
      by blast+
  }
  {
    fix out ds m1 m2
    assume h: "fst (DescribeDatastore conn \<lparr>dd_DatastoreName = Some name\<rparr>
          (remote_after_retry (CreateDatastore conn dp) (remote s))) = Inr out
        \<and> ddo_Datastore out = Some ds
        \<and> flattenStorage (ds_Storage ds) = Ret m1
        \<and> flattenRetentionPeriod (ds_RetentionPeriod ds) = Ret m2"
    with d have r: "res = Inr out" by simp
    from b(5) [OF r, of ds m1 m2] h
    show "fst (resourceAwsIotAnalyticsDatastoreCreate conn s) = Ret None"
      and "rd (snd (resourceAwsIotAnalyticsDatastoreCreate conn s))
          = stored ((rd s)\<lparr>rd_id := name\<rparr>) (ds_Name ds) m1 m2"
      by blast+
  }
  {
    fix out
    assume h: "fst (DescribeDatastore conn \<lparr>dd_DatastoreName = Some name\<rparr>
          (remote_after_retry (CreateDatastore conn dp) (remote s))) = Inr out
        \<and> (ddo_Datastore out = None
            \<or> (\<exists>ds. ddo_Datastore out = Some ds
                  \<and> (ds_Storage ds = None \<or> ds_RetentionPeriod ds = None)))"
    with d have r: "res = Inr out" by simp
    from b(3) [OF r] b(4) [OF r] h
    show "fst (resourceAwsIotAnalyticsDatastoreCreate conn s) = Panic"
      by auto
  }
next
  assume ko: "None \<notin> set (results (CreateDatastore conn dp) (remote s) 6)"
  note a = datastoreCreate_failure [OF dp ko]
  note b = datastoreCreate_fails [OF dp ko]
  show "fst (resourceAwsIotAnalyticsDatastoreCreate conn s)
      = Ret (results (CreateDatastore conn dp) (remote s) 6 ! 5)"
    using a by blast
  show "results (CreateDatastore conn dp) (remote s) 6 ! 5 \<noteq> None"
    using a by blast
  show "rd (snd (resourceAwsIotAnalyticsDatastoreCreate conn s)) = rd s"
    using a by blast
  show "remote (snd (resourceAwsIotAnalyticsDatastoreCreate conn s))
      = world_after (CreateDatastore conn dp) (remote s) 6"
    using b by blast
  show "trace (snd (resourceAwsIotAnalyticsDatastoreCreate conn s))
      = trace s @ snd (snd (retry (CreateDatastore conn dp) (CreateDatastoreCall dp) (remote s)))"
    using b by blast
  show "set_ids (trace (snd (resourceAwsIotAnalyticsDatastoreCreate conn s))) = set_ids (trace s)"
    using a by blast
qed

text \<open>
  Claim C7. Take a configuration with a name, from which the requests can be built.
  When one of the attempts of the retry loop succeeds, create sets the id to the
  configured name and then calls the remote describe operation with that name, on the
  remote state that the attempts left, and does nothing after: the remote state it
  leaves is the one the describe call left, it returns the describe call's error if
  there is one and leaves the attributes alone, and otherwise it returns nil with the
  name, storage and retention period received stored in the attributes (it panics when
  the resource, its storage or its retention period is missing from the response). When
  all six attempts fail, create returns the sixth error, leaves the resource data as it
  was, makes no further call and sets no id. This holds for the channel and for the
  datastore.
\<close>

theorem create_sets_id_then_reads:
  assumes n: "Get (rd s) ''name'' = Some (AString name)"
      and cp: "createChannelParams (rd s) = Ret cp"
      and dp: "createDatastoreParams (rd s) = Ret dp"
  shows "(None \<in> set (results (CreateChannel conn cp) (remote s) 6) \<longrightarrow>
         rd_id (rd (snd (resourceAwsIotAnalyticsChannelCreate conn s))) = name
       \<and> trace (snd (resourceAwsIotAnalyticsChannelCreate conn s))
           = trace s @ snd (snd (retry (CreateChannel conn cp) (CreateChannelCall cp) (remote s)))
             @ [SetId name, Call (DescribeChannelCall \<lparr>dc_ChannelName = Some name\<rparr>)]
       \<and> remote (snd (resourceAwsIotAnalyticsChannelCreate conn s))
           = snd (DescribeChannel conn \<lparr>dc_ChannelName = Some name\<rparr>
               (remote_after_retry (CreateChannel conn cp) (remote s)))
       \<and> (\<forall>e. fst (DescribeChannel conn \<lparr>dc_ChannelName = Some name\<rparr>
                 (remote_after_retry (CreateChannel conn cp) (remote s))) = Inl e \<longrightarrow>
              fst (resourceAwsIotAnalyticsChannelCreate conn s) = Ret (Some e)
            \<and> rd (snd (resourceAwsIotAnalyticsChannelCreate conn s)) = (rd s)\<lparr>rd_id := name\<rparr>)
       \<and> (\<forall>out ch m1 m2.
              fst (DescribeChannel conn \<lparr>dc_ChannelName = Some name\<rparr>
                 (remote_after_retry (CreateChannel conn cp) (remote s))) = Inr out
            \<and> dco_Channel out = Some ch
            \<and> flattenStorage (ch_Storage ch) = Ret m1
            \<and> flattenRetentionPeriod (ch_RetentionPeriod ch) = Ret m2 \<longrightarrow>
              fst (resourceAwsIotAnalyticsChannelCreate conn s) = Ret None
            \<and> rd (snd (resourceAwsIotAnalyticsChannelCreate conn s))
                = stored ((rd s)\<lparr>rd_id := name\<rparr>) (ch_Name ch) m1 m2)
       \<and> (\<forall>out.
              fst (DescribeChannel conn \<lparr>dc_ChannelName = Some name\<rparr>
                 (remote_after_retry (CreateChannel conn cp) (remote s))) = Inr out
            \<and> (dco_Channel out = None
                \<or> (\<exists>ch. dco_Channel out = Some ch
                      \<and> (ch_Storage ch = None \<or> ch_RetentionPeriod ch = None))) \<longrightarrow>
              fst (resourceAwsIotAnalyticsChannelCreate conn s) = Panic))
    \<and> (None \<notin> set (results (CreateChannel conn cp) (remote s) 6) \<longrightarrow>
         fst (resourceAwsIotAnalyticsChannelCreate conn s)
           = Ret (results (CreateChannel conn cp) (remote s) 6 ! 5)
       \<and> results (CreateChannel conn cp) (remote s) 6 ! 5 \<noteq> None
       \<and> rd (snd (resourceAwsIotAnalyticsChannelCreate conn s)) = rd s
       \<and> remote (snd (resourceAwsIotAnalyticsChannelCreate conn s))
           = world_after (CreateChannel conn cp) (remote s) 6
       \<and> trace (snd (resourceAwsIotAnalyticsChannelCreate conn s))
           = trace s @ snd (snd (retry (CreateChannel conn cp) (CreateChannelCall cp) (remote s)))
       \<and> set_ids (trace (snd (resourceAwsIotAnalyticsChannelCreate conn s))) = set_ids (trace s))
    \<and> (None \<in> set (results (CreateDatastore conn dp) (remote s) 6) \<longrightarrow>
         rd_id (rd (snd (resourceAwsIotAnalyticsDatastoreCreate conn s))) = name
       \<and> trace (snd (resourceAwsIotAnalyticsDatastoreCreate conn s))
           = trace s @ snd (snd (retry (CreateDatastore conn dp) (CreateDatastoreCall dp) (remote s)))
             @ [SetId name, Call (DescribeDatastoreCall \<lparr>dd_DatastoreName = Some name\<rparr>)]
       \<and> remote (snd (resourceAwsIotAnalyticsDatastoreCreate conn s))
           = snd (DescribeDatastore conn \<lparr>dd_DatastoreName = Some name\<rparr>
               (remote_after_retry (CreateDatastore conn dp) (remote s)))
       \<and> (\<forall>e. fst (DescribeDatastore conn \<lparr>dd_DatastoreName = Some name\<rparr>
                 (remote_after_retry (CreateDatastore conn dp) (remote s))) = Inl e \<longrightarrow>
              fst (resourceAwsIotAnalyticsDatastoreCreate conn s) = Ret (Some e)
            \<and> rd (snd (resourceAwsIotAnalyticsDatastoreCreate conn s)) = (rd s)\<lparr>rd_id := name\<rparr>)
       \<and> (\<forall>out ds m1 m2.
              fst (DescribeDatastore conn \<lparr>dd_DatastoreName = Some name\<rparr>
                 (remote_after_retry (CreateDatastore conn dp) (remote s))) = Inr out
            \<and> ddo_Datastore out = Some ds
            \<and> flattenStorage (ds_Storage ds) = Ret m1
            \<and> flattenRetentionPeriod (ds_RetentionPeriod ds) = Ret m2 \<longrightarrow>
              fst (resourceAwsIotAnalyticsDatastoreCreate conn s) = Ret None
            \<and> rd (snd (resourceAwsIotAnalyticsDatastoreCreate conn s))
                = stored ((rd s)\<lparr>rd_id := name\<rparr>) (ds_Name ds) m1 m2)
       \<and> (\<forall>out.
              fst (DescribeDatastore conn \<lparr>dd_DatastoreName = Some name\<rparr>
                 (remote_after_retry (CreateDatastore conn dp) (remote s))) = Inr out
            \<and> (ddo_Datastore out = None
                \<or> (\<exists>ds. ddo_Datastore out = Some ds
                      \<and> (ds_Storage ds = None \<or> ds_RetentionPeriod ds = None))) \<longrightarrow>
              fst (resourceAwsIotAnalyticsDatastoreCreate conn s) = Panic))
    \<and> (None \<notin> set (results (CreateDatastore conn dp) (remote s) 6) \<longrightarrow>
         fst (resourceAwsIotAnalyticsDatastoreCreate conn s)
           = Ret (results (CreateDatastore conn dp) (remote s) 6 ! 5)
       \<and> results (CreateDatastore conn dp) (remote s) 6 ! 5 \<noteq> None
       \<and> rd (snd (resourceAwsIotAnalyticsDatastoreCreate conn s)) = rd s
       \<and> remote (snd (resourceAwsIotAnalyticsDatastoreCreate conn s))
           = world_after (CreateDatastore conn dp) (remote s) 6
       \<and> trace (snd (resourceAwsIotAnalyticsDatastoreCreate conn s))
           = trace s @ snd (snd (retry (CreateDatastore conn dp) (CreateDatastoreCall dp) (remote s)))
       \<and> set_ids (trace (snd (resourceAwsIotAnalyticsDatastoreCreate conn s))) = set_ids (trace s))"
proof -
  note c = channel_create_branches [OF n cp, of conn]
  note d = datastore_create_branches [OF n dp, of conn]
  show ?thesis
    apply (rule conjI)
     apply (rule conjunct1 [OF c])
    apply (rule conjI)
     apply (rule conjunct2 [OF c])
    apply (rule d)
    done
qed

lemma example_config_facts:
  "Get (rd example_config) ''name'' = Some (AString ''telemetry'')"
  "createChannelParams (rd example_config) = Ret example_channel_params"
  "createDatastoreParams (rd example_config) = Ret example_datastore_params"
  by (simp_all add: example_config_def Get_def createChannelParams_def createDatastoreParams_def
      configuredStorage_def configuredRetentionPeriod_def parseRetentionPeriod_def
      example_channel_params_def example_datastore_params_def)

lemma example_results:
  "results (CreateChannel example_iot example_channel_params) (remote example_config) 6
     = [Some ''Unable to assume role'', Some ''Unable to assume role'', None, None, None, None]"
  "results (CreateDatastore example_iot example_datastore_params) (remote example_config) 6
     = [Some ''Unable to assume role'', Some ''Unable to assume role'', None, None, None, None]"
  "results (CreateChannel example_iot_down example_channel_params) (remote example_config) 6
     = replicate 6 (Some ''AccessDenied'')"
  "results (CreateDatastore example_iot_down example_datastore_params) (remote example_config) 6
     = replicate 6 (Some ''AccessDenied'')"
  by (simp_all add: example_iot_def example_iot_down_def example_config_def eval_nat_numeral)

lemma example_retry:
  "snd (snd (retry (CreateChannel example_iot example_channel_params)
       (CreateChannelCall example_channel_params) (remote example_config)))
     = [Call (CreateChannelCall example_channel_params), Sleep 1,
        Call (CreateChannelCall example_channel_params), Sleep 2,
        Call (CreateChannelCall example_channel_params)]"
  "snd (snd (retry (CreateDatastore example_iot example_datastore_params)
       (CreateDatastoreCall example_datastore_params) (remote example_config)))
     = [Call (CreateDatastoreCall example_datastore_params), Sleep 1,
        Call (CreateDatastoreCall example_datastore_params), Sleep 2,
        Call (CreateDatastoreCall example_datastore_params)]"
  by (simp_all add: retry_def retrySecondsList_def example_iot_def example_config_def)

lemma example_remote:
  "remote_after_retry (CreateChannel example_iot example_channel_params) (remote example_config) = 3"
  "remote_after_retry (CreateDatastore example_iot example_datastore_params) (remote example_config) = 3"
  "world_after (CreateChannel example_iot_down example_channel_params) (remote example_config) 6 = 6"
  "world_after (CreateDatastore example_iot_down example_datastore_params) (remote example_config) 6 = 6"
  by (simp_all add: remote_after_retry_def attempts_made_def leading_failures_def succeeded_def
      example_results)
    (simp_all add: example_iot_def example_iot_down_def example_config_def eval_nat_numeral)

lemma example_describe:
  "DescribeChannel example_iot \<lparr>dc_ChannelName = Some ''telemetry''\<rparr> 3
     = (Inr \<lparr>dco_Channel = Some \<lparr>ch_Name = Some ''telemetry'',
           ch_Storage = Some \<lparr>CustomerManagedS3 = None, ServiceManagedS3 = Some \<lparr>sm_unused = ()\<rparr>\<rparr>,
           ch_RetentionPeriod = Some \<lparr>NumberOfDays = None, Unlimited = Some True\<rparr>\<rparr>\<rparr>, 13)"
  "DescribeDatastore example_iot \<lparr>dd_DatastoreName = Some ''telemetry''\<rparr> 3
     = (Inr \<lparr>ddo_Datastore = Some \<lparr>ds_Name = Some ''telemetry'',
           ds_Storage = Some \<lparr>CustomerManagedS3 = None, ServiceManagedS3 = Some \<lparr>sm_unused = ()\<rparr>\<rparr>,
           ds_RetentionPeriod = Some \<lparr>NumberOfDays = None, Unlimited = Some True\<rparr>\<rparr>\<rparr>, 13)"
  by (simp_all add: example_iot_def)

lemma example_flatten:
  "flattenStorage (Some \<lparr>CustomerManagedS3 = None, ServiceManagedS3 = Some \<lparr>sm_unused = ()\<rparr>\<rparr>)
     = Ret example_read_storage"
  "flattenRetentionPeriod (Some \<lparr>NumberOfDays = None, Unlimited = Some True\<rparr>)
     = Ret example_read_retention"
  by (simp_all add: flattenStorage_def flattenRetentionPeriod_def flattenCustomerManagedS3_def
      flattenServiceManagedS3_def wrapMapInList_def BoolValue_def example_read_storage_def
      example_read_retention_def)

theorem create_sets_id_then_reads_witness:
  "resourceAwsIotAnalyticsChannelCreate example_iot example_config
     = (Ret None,
        \<lparr>rd = stored ((rd example_config)\<lparr>rd_id := ''telemetry''\<rparr>) (Some ''telemetry'')
                example_read_storage example_read_retention,
         remote = 13,
         trace = [Call (CreateChannelCall example_channel_params), Sleep 1,
                  Call (CreateChannelCall example_channel_params), Sleep 2,
                  Call (CreateChannelCall example_channel_params),
                  SetId ''telemetry'',
                  Call (DescribeChannelCall \<lparr>dc_ChannelName = Some ''telemetry''\<rparr>)]\<rparr>)
   \<and> fst (resourceAwsIotAnalyticsChannelCreate example_iot_down example_config)
       = Ret (Some ''AccessDenied'')
   \<and> rd (snd (resourceAwsIotAnalyticsChannelCreate example_iot_down example_config))
       = rd example_config
   \<and> remote (snd (resourceAwsIotAnalyticsChannelCreate example_iot_down example_config)) = 6
   \<and> resourceAwsIotAnalyticsDatastoreCreate example_iot example_config
     = (Ret None,
        \<lparr>rd = stored ((rd example_config)\<lparr>rd_id := ''telemetry''\<rparr>) (Some ''telemetry'')
                example_read_storage example_read_retention,
         remote = 13,
         trace = [Call (CreateDatastoreCall example_datastore_params), Sleep 1,
                  Call (CreateDatastoreCall example_datastore_params), Sleep 2,
                  Call (CreateDatastoreCall example_datastore_params),
                  SetId ''telemetry'',
                  Call (DescribeDatastoreCall \<lparr>dd_DatastoreName = Some ''telemetry''\<rparr>)]\<rparr>)
   \<and> fst (resourceAwsIotAnalyticsDatastoreCreate example_iot_down example_config)
       = Ret (Some ''AccessDenied'')
   \<and> rd (snd (resourceAwsIotAnalyticsDatastoreCreate example_iot_down example_config))
       = rd example_config
   \<and> remote (snd (resourceAwsIotAnalyticsDatastoreCreate example_iot_down example_config)) = 6"
proof -
  have t: "trace example_config = []"
    by (simp add: example_config_def)
  have eq: "x = (fst x, \<lparr>rd = rd (snd x), remote = remote (snd x), trace = trace (snd x)\<rparr>)"
    for x :: "string option run \<times> nat machine"
    by (cases x) simp
  note up = create_sets_id_then_reads [OF example_config_facts, of example_iot]
  note down = create_sets_id_then_reads [OF example_config_facts, of example_iot_down]
  have c: "resourceAwsIotAnalyticsChannelCreate example_iot example_config
     = (Ret None,
        \<lparr>rd = stored ((rd example_config)\<lparr>rd_id := ''telemetry''\<rparr>) (Some ''telemetry'')
                example_read_storage example_read_retention,
         remote = 13,
         trace = [Call (CreateChannelCall example_channel_params), Sleep 1,
                  Call (CreateChannelCall example_channel_params), Sleep 2,
                  Call (CreateChannelCall example_channel_params),
                  SetId ''telemetry'',
                  Call (DescribeChannelCall \<lparr>dc_ChannelName = Some ''telemetry''\<rparr>)]\<rparr>)"
    using up
    by (subst eq) (simp add: example_results example_retry example_remote example_describe
        example_flatten t)
  have d: "resourceAwsIotAnalyticsDatastoreCreate example_iot example_config
     = (Ret None,
        \<lparr>rd = stored ((rd example_config)\<lparr>rd_id := ''telemetry''\<rparr>) (Some ''telemetry'')
                example_read_storage example_read_retention,
         remote = 13,
         trace = [Call (CreateDatastoreCall example_datastore_params), Sleep 1,
                  Call (CreateDatastoreCall example_datastore_params), Sleep 2,
                  Call (CreateDatastoreCall example_datastore_params),
                  SetId ''telemetry'',
                  Call (DescribeDatastoreCall \<lparr>dd_DatastoreName = Some ''telemetry''\<rparr>)]\<rparr>)"
    using up
    by (subst eq) (simp add: example_results example_retry example_remote example_describe
        example_flatten t)
  show ?thesis
    using c d down
    by (simp add: example_results example_remote)
qed

end
